theory Spec2Isabelle
  imports Main
begin

section \<open>JavaScript values and built-ins used by the application\<close>

text \<open>
  The application is TypeScript. A value of type \<open>number\<close> that the pages obtain from
  \<open>parseInt\<close> is either an integer or \<open>NaN\<close>; the directory data holds integer
  literals only. Such numbers are modelled by \<open>jsnum\<close>. The model is exact for integers
  below \<open>2^53\<close> (beyond that a JavaScript number rounds); every digit string the forms
  pass on is at most five digits long or is the decimal form of a directory id.
\<close>

datatype jsnum = NaN | Num int

text \<open>\<open>a === b\<close> on numbers: \<open>NaN\<close> is not equal to anything, itself included.\<close>

fun strictEq :: "jsnum \<Rightarrow> jsnum \<Rightarrow> bool" where
  "strictEq (Num a) (Num b) = (a = b)"
| "strictEq _ _ = False"

text \<open>\<open>a <= b\<close> on numbers: false as soon as one side is \<open>NaN\<close>.\<close>

fun numLe :: "jsnum \<Rightarrow> jsnum \<Rightarrow> bool" where
  "numLe (Num a) (Num b) = (a \<le> b)"
| "numLe _ _ = False"

text \<open>\<open>a < b\<close> on numbers.\<close>

fun numLt :: "jsnum \<Rightarrow> jsnum \<Rightarrow> bool" where
  "numLt (Num a) (Num b) = (a < b)"
| "numLt _ _ = False"

subsection \<open>Digits\<close>

definition digitTable :: "(char \<times> nat) list" where
  "digitTable =
    [(CHR ''0'', 0), (CHR ''1'', 1), (CHR ''2'', 2), (CHR ''3'', 3), (CHR ''4'', 4),
     (CHR ''5'', 5), (CHR ''6'', 6), (CHR ''7'', 7), (CHR ''8'', 8), (CHR ''9'', 9),
     (CHR ''a'', 10), (CHR ''b'', 11), (CHR ''c'', 12), (CHR ''d'', 13), (CHR ''e'', 14),
     (CHR ''f'', 15),
     (CHR ''A'', 10), (CHR ''B'', 11), (CHR ''C'', 12), (CHR ''D'', 13), (CHR ''E'', 14),
     (CHR ''F'', 15)]"

definition digitValue :: "char \<Rightarrow> nat option" where
  "digitValue c = map_of digitTable c"

definition digitChar :: "nat \<Rightarrow> char" where
  "digitChar d = ''0123456789'' ! d"

text \<open>The character class \<open>\d\<close> of a JavaScript regular expression: \<open>0\<close> to \<open>9\<close>.\<close>

definition isDigit :: "char \<Rightarrow> bool" where
  "isDigit c = (case digitValue c of Some d \<Rightarrow> d < 10 | None \<Rightarrow> False)"

text \<open>\<open>/^\d{5}$/.test(s)\<close>: exactly five characters, all of them digits.\<close>

definition testFiveDigits :: "string \<Rightarrow> bool" where
  "testFiveDigits s = (length s = 5 \<and> list_all isDigit s)"

subsection \<open>\<open>parseInt\<close>\<close>

text \<open>
  \<open>parseInt(s)\<close> with no radix: leading white space is skipped (the ASCII white space
  characters are modelled), an optional sign is read, a \<open>0x\<close> or \<open>0X\<close> prefix selects
  radix 16 and anything else radix 10, and the longest prefix of digits of that radix is
  the value. No digit at all gives \<open>NaN\<close>.
\<close>

definition isWhiteSpace :: "char \<Rightarrow> bool" where
  "isWhiteSpace c = (of_char c \<in> {9, 10, 11, 12, 13, 32 :: nat})"

fun scanDigits :: "nat \<Rightarrow> string \<Rightarrow> nat list" where
  "scanDigits radix [] = []"
| "scanDigits radix (c # cs) =
     (case digitValue c of
        Some d \<Rightarrow> if d < radix then d # scanDigits radix cs else []
      | None \<Rightarrow> [])"

definition radixValue :: "nat \<Rightarrow> nat list \<Rightarrow> nat" where
  "radixValue radix ds = foldl (\<lambda>a d. a * radix + d) 0 ds"

definition stripSign :: "string \<Rightarrow> bool \<times> string" where
  "stripSign t =
     (case t of
        [] \<Rightarrow> (False, t)
      | c # r \<Rightarrow> if c = CHR ''-'' then (True, r)
                 else if c = CHR ''+'' then (False, r)
                 else (False, t))"

definition stripRadixPrefix :: "string \<Rightarrow> nat \<times> string" where
  "stripRadixPrefix u =
     (if take 2 u = ''0x'' \<or> take 2 u = ''0X'' then (16, drop 2 u) else (10, u))"

definition parseInt :: "string \<Rightarrow> jsnum" where
  "parseInt s =
     (let (neg, u) = stripSign (dropWhile isWhiteSpace s);
          (radix, v) = stripRadixPrefix u;
          ds = scanDigits radix v
      in if ds = [] then NaN
         else Num ((if neg then - 1 else 1) * int (radixValue radix ds)))"

subsection \<open>\<open>Number.prototype.toString\<close>, \<open>padStart\<close> and \<open>join\<close>\<close>

fun natDigits :: "nat \<Rightarrow> nat list" where
  "natDigits n = (if n < 10 then [n] else natDigits (n div 10) @ [n mod 10])"

declare natDigits.simps [simp del]

fun toString :: "jsnum \<Rightarrow> string" where
  "toString NaN = ''NaN''"
| "toString (Num n) =
     (if n < 0 then CHR ''-'' # map digitChar (natDigits (nat (- n)))
      else map digitChar (natDigits (nat n)))"

declare toString.simps [simp del]

text \<open>
  \<open>s.padStart(targetLength, padString)\<close>: the pad string is repeated and cut to the
  missing length; a string that is long enough, or an empty pad string, leaves \<open>s\<close> as
  it is.
\<close>

definition padStart :: "string \<Rightarrow> nat \<Rightarrow> string \<Rightarrow> string" where
  "padStart s targetLength padString =
     (if targetLength \<le> length s \<or> padString = [] then s
      else take (targetLength - length s)
             (concat (replicate (targetLength - length s) padString)) @ s)"

text \<open>\<open>xs.join(sep)\<close> on an array of strings.\<close>

fun join :: "string list \<Rightarrow> string \<Rightarrow> string" where
  "join [] sep = []"
| "join [x] sep = x"
| "join (x # y # ys) sep = x @ sep @ join (y # ys) sep"

text \<open>
  \<open>xs.splice(start, deleteCount)\<close> with no inserted items, as the array it leaves
  behind: a negative \<open>start\<close> counts from the end, and both arguments are clamped to
  the array.
\<close>

definition splice :: "'a list \<Rightarrow> int \<Rightarrow> int \<Rightarrow> 'a list" where
  "splice xs start deleteCount =
     (let len = int (length xs);
          actualStart = (if start < 0 then max (len + start) 0 else min start len);
          actualDeleteCount = min (max deleteCount 0) (len - actualStart)
      in take (nat actualStart) xs @ drop (nat (actualStart + actualDeleteCount)) xs)"

text \<open>\<open>xs.findIndex(p)\<close>: the first index whose element satisfies \<open>p\<close>, or \<open>-1\<close>.\<close>

fun findIndexFrom :: "('a \<Rightarrow> bool) \<Rightarrow> 'a list \<Rightarrow> int \<Rightarrow> int" where
  "findIndexFrom p [] i = - 1"
| "findIndexFrom p (x # xs) i = (if p x then i else findIndexFrom p xs (i + 1))"

definition findIndex :: "'a list \<Rightarrow> ('a \<Rightarrow> bool) \<Rightarrow> int" where
  "findIndex xs p = findIndexFrom p xs 0"

text \<open>\<open>xs.find(p)\<close>: the first element that satisfies \<open>p\<close>, or \<open>undefined\<close>.\<close>

fun findFirst :: "'a list \<Rightarrow> ('a \<Rightarrow> bool) \<Rightarrow> 'a option" where
  "findFirst [] p = None"
| "findFirst (x # xs) p = (if p x then Some x else findFirst xs p)"

section \<open>The assignment service (\<open>services/assignment-service.ts\<close>)\<close>

subsection \<open>API models\<close>

record SalesRep =
  SalesRepId :: jsnum
  SalesRepNo :: string
  SalesRepType :: jsnum
  Division :: string

record CurrentAssignment =
  ZipCodeId :: jsnum
  ZipCode :: string

text \<open>An optional field (\<open>counties?\<close>, \<open>zipFrom?\<close>, \<open>zipTo?\<close>) is \<open>None\<close> when it is absent.\<close>

record ValidateAssignmentRequest =
  typeId :: jsnum
  repId :: jsnum
  counties :: "string list option"
  zipFrom :: "string option"
  zipTo :: "string option"

record ValidateAssignmentResponse =
  valid :: bool
  errors :: "string list"

record ReassignRequest =
  typeId :: jsnum
  fromRepId :: jsnum
  toRepId :: jsnum
  counties :: "string list option"
  zipFrom :: "string option"
  zipTo :: "string option"

record BatchAssignmentUpdateRequest =
  assigns :: "ValidateAssignmentRequest list"
  reassigns :: "ReassignRequest list"

record BatchAssignmentUpdateResponse =
  success :: bool

text \<open>
  The state of an \<open>AssignmentService\<close>: its two private staging arrays \<open>_assigns\<close> and
  \<open>_reassigns\<close>. Every method takes the state and returns the new one. The methods are
  \<open>async\<close> where the source says so; they never suspend before they return, so a call
  is one step.
\<close>

record AssignmentService =
  p_assigns :: "ValidateAssignmentRequest list"
  p_reassigns :: "ReassignRequest list"

definition newAssignmentService :: AssignmentService where
  "newAssignmentService = \<lparr>p_assigns = [], p_reassigns = []\<rparr>"

subsection \<open>Directory lookups\<close>

definition getSalesReps :: "jsnum \<Rightarrow> SalesRep list" where
  "getSalesReps tid =
     (if tid = Num 1 then
        [\<lparr>SalesRepId = Num 101, SalesRepNo = ''0123'', SalesRepType = Num 1, Division = ''C''\<rparr>,
         \<lparr>SalesRepId = Num 102, SalesRepNo = ''0347'', SalesRepType = Num 1, Division = ''C''\<rparr>]
      else if tid = Num 2 then
        [\<lparr>SalesRepId = Num 201, SalesRepNo = ''2301'', SalesRepType = Num 2, Division = ''C''\<rparr>,
         \<lparr>SalesRepId = Num 202, SalesRepNo = ''2574'', SalesRepType = Num 2, Division = ''C''\<rparr>]
      else if tid = Num 3 then
        [\<lparr>SalesRepId = Num 301, SalesRepNo = ''3120'', SalesRepType = Num 3, Division = ''C''\<rparr>,
         \<lparr>SalesRepId = Num 302, SalesRepNo = ''3462'', SalesRepType = Num 3, Division = ''C''\<rparr>]
      else [])"

definition getCurrentAssignments :: "jsnum \<Rightarrow> CurrentAssignment list" where
  "getCurrentAssignments rid =
     (if rid = Num 101 then
        [\<lparr>ZipCodeId = Num 0, ZipCode = ''80019''\<rparr>,
         \<lparr>ZipCodeId = Num 1, ZipCode = ''80022''\<rparr>,
         \<lparr>ZipCodeId = Num 2, ZipCode = ''80024''\<rparr>]
      else if rid = Num 102 then
        [\<lparr>ZipCodeId = Num 3, ZipCode = ''80030''\<rparr>,
         \<lparr>ZipCodeId = Num 4, ZipCode = ''80031''\<rparr>,
         \<lparr>ZipCodeId = Num 10, ZipCode = ''80301''\<rparr>,
         \<lparr>ZipCodeId = Num 11, ZipCode = ''80302''\<rparr>]
      else if rid = Num 201 then
        [\<lparr>ZipCodeId = Num 5, ZipCode = ''80037''\<rparr>,
         \<lparr>ZipCodeId = Num 6, ZipCode = ''80045''\<rparr>,
         \<lparr>ZipCodeId = Num 12, ZipCode = ''80303''\<rparr>]
      else [])"

subsection \<open>Validation and batch update\<close>

text \<open>
  The request argument is \<open>None\<close> for a \<open>null\<close> or \<open>undefined\<close> argument: reading a
  property of it throws, and the method's \<open>catch\<close> clause answers.
\<close>

definition validate :: "ValidateAssignmentRequest option \<Rightarrow> ValidateAssignmentResponse" where
  "validate request =
     (case request of
        None \<Rightarrow> \<lparr>valid = False, errors = [''An unexpected error occurred during validation'']\<rparr>
      | Some r \<Rightarrow>
          if ValidateAssignmentRequest.zipFrom r = Some ''80019''
             \<or> ValidateAssignmentRequest.zipTo r = Some ''80019''
          then \<lparr>valid = False, errors = [''ZIP 80019 overlaps Rep 99'']\<rparr>
          else \<lparr>valid = True, errors = []\<rparr>)"

definition hasInvalidReassign :: "ReassignRequest list \<Rightarrow> bool" where
  "hasInvalidReassign rs =
     list_ex (\<lambda>r. strictEq (fromRepId r) (Num 101) \<and> strictEq (toRepId r) (Num 201)) rs"

definition batchUpdate ::
  "BatchAssignmentUpdateRequest option \<Rightarrow> AssignmentService
     \<Rightarrow> BatchAssignmentUpdateResponse \<times> AssignmentService" where
  "batchUpdate request this =
     (case request of
        None \<Rightarrow> (\<lparr>success = False\<rparr>, this)
      | Some r \<Rightarrow>
          if hasInvalidReassign (reassigns r) then (\<lparr>success = False\<rparr>, this)
          else (\<lparr>success = True\<rparr>, this\<lparr>p_assigns := [], p_reassigns := []\<rparr>))"

subsection \<open>The staging methods\<close>

text \<open>The getters \<open>assigns\<close> and \<open>reassigns\<close>, as the sequence they return.\<close>

definition get_assigns :: "AssignmentService \<Rightarrow> ValidateAssignmentRequest list" where
  "get_assigns this = p_assigns this"

definition get_reassigns :: "AssignmentService \<Rightarrow> ReassignRequest list" where
  "get_reassigns this = p_reassigns this"

definition addAssign :: "ValidateAssignmentRequest \<Rightarrow> AssignmentService \<Rightarrow> AssignmentService" where
  "addAssign assign this = this\<lparr>p_assigns := p_assigns this @ [assign]\<rparr>"

definition addReassign :: "ReassignRequest \<Rightarrow> AssignmentService \<Rightarrow> AssignmentService" where
  "addReassign reassign this = this\<lparr>p_reassigns := p_reassigns this @ [reassign]\<rparr>"

text \<open>An index is an integer: the pages pass what \<open>findIndex\<close> returned.\<close>

definition removeAssign :: "int \<Rightarrow> AssignmentService \<Rightarrow> AssignmentService" where
  "removeAssign index this =
     (if index \<ge> 0 \<and> index < int (length (p_assigns this))
      then this\<lparr>p_assigns := splice (p_assigns this) index 1\<rparr>
      else this)"

definition removeReassign :: "int \<Rightarrow> AssignmentService \<Rightarrow> AssignmentService" where
  "removeReassign index this =
     (if index \<ge> 0 \<and> index < int (length (p_reassigns this))
      then this\<lparr>p_reassigns := splice (p_reassigns this) index 1\<rparr>
      else this)"

definition clearAssigns :: "AssignmentService \<Rightarrow> AssignmentService" where
  "clearAssigns this = this\<lparr>p_assigns := []\<rparr>"

definition clearReassigns :: "AssignmentService \<Rightarrow> AssignmentService" where
  "clearReassigns this = this\<lparr>p_reassigns := []\<rparr>"

definition clearAll :: "AssignmentService \<Rightarrow> AssignmentService" where
  "clearAll this = clearReassigns (clearAssigns this)"

section \<open>The validation route of the server (\<open>server/routes.ts\<close>)\<close>

text \<open>
  The handler of \<open>POST /api/assignments/validate\<close>. It has no \<open>catch\<close> clause: a
  request without a body makes the property read throw, and no validation response is
  sent.
\<close>

datatype jsError = TypeError

definition routeValidate ::
  "ValidateAssignmentRequest option \<Rightarrow> jsError + ValidateAssignmentResponse" where
  "routeValidate body =
     (case body of
        None \<Rightarrow> Inl TypeError
      | Some request \<Rightarrow>
          if ValidateAssignmentRequest.zipFrom request = Some ''80019''
             \<or> ValidateAssignmentRequest.zipTo request = Some ''80019''
          then Inr \<lparr>valid = False, errors = [''ZIP 80019 overlaps Rep 99'']\<rparr>
          else Inr \<lparr>valid = True, errors = []\<rparr>)"

section \<open>What the two pages share\<close>

text \<open>The form's mode, \<open>"county" | "zip"\<close>.\<close>

datatype Mode = County | Zip

record DropdownOption =
  "value" :: string
  label :: string

text \<open>The notification a handler ends with (\<open>showSuccess\<close>, \<open>showError\<close>).\<close>

datatype toast = ShowSuccess string | ShowError string

text \<open>\<open>x || d\<close> on an optional string: an absent or empty \<open>x\<close> gives \<open>d\<close>.\<close>

definition orElse :: "string option \<Rightarrow> string \<Rightarrow> string" where
  "orElse x d = (case x of None \<Rightarrow> d | Some s \<Rightarrow> if s = [] then d else s)"

text \<open>\<open>cs?.includes(x)\<close> in a condition: an absent array counts as false.\<close>

definition includesOpt :: "string list option \<Rightarrow> string \<Rightarrow> bool" where
  "includesOpt cs x = (case cs of None \<Rightarrow> False | Some ys \<Rightarrow> x \<in> set ys)"

text \<open>The option a page shows for a sales rep.\<close>

definition repOption :: "SalesRep \<Rightarrow> DropdownOption" where
  "repOption rep =
     \<lparr>value = toString (SalesRepId rep),
      label = SalesRepNo rep @ '' ('' @ Division rep @ '')''\<rparr>"

text \<open>
  The refinement shared by \<open>assignmentFormSchema\<close> and \<open>reassignmentFormSchema\<close>: county
  mode needs a non-empty county array, ZIP mode needs both bounds present, each of five
  digits, and in numeric order.
\<close>

definition selectorRefine ::
  "Mode \<Rightarrow> string list option \<Rightarrow> string option \<Rightarrow> string option \<Rightarrow> bool" where
  "selectorRefine m cs zf zt =
     (case m of
        County \<Rightarrow> (case cs of None \<Rightarrow> False | Some ys \<Rightarrow> length ys > 0)
      | Zip \<Rightarrow>
          (case (zf, zt) of
             (Some f, Some t) \<Rightarrow>
               f \<noteq> [] \<and> t \<noteq> [] \<and> testFiveDigits f \<and> testFiveDigits t
               \<and> numLe (parseInt f) (parseInt t)
           | _ \<Rightarrow> False))"

text \<open>
  The loop \<open>for (let zip = zipFrom; zip <= zipTo; zip++)\<close> of both \<open>onSubmit\<close>
  handlers, which appends one display row per ZIP code to the table; \<open>row\<close> builds the
  row from its location. The loop variable \<open>zip\<close> is \<open>z\<close> here and its bounds are
  \<open>zFrom\<close> and \<open>zTo\<close>. The loop runs on numbers; with \<open>NaN\<close> on either side its
  condition is false at once.
\<close>

function zipLoop :: "(string \<Rightarrow> 'row) \<Rightarrow> int \<Rightarrow> int \<Rightarrow> 'row list \<Rightarrow> 'row list" where
  "zipLoop row z zTo prev =
     (if z \<le> zTo
      then zipLoop row (z + 1) zTo (prev @ [row (padStart (toString (Num z)) 5 ''0'')])
      else prev)"
  by pat_completeness auto
termination
  by (relation "measure (\<lambda>(row, z, zTo, prev). nat (zTo - z + 1))") auto

declare zipLoop.simps [simp del]

definition zipRows :: "(string \<Rightarrow> 'row) \<Rightarrow> jsnum \<Rightarrow> jsnum \<Rightarrow> 'row list \<Rightarrow> 'row list" where
  "zipRows row zFrom zTo prev =
     (case (zFrom, zTo) of
        (Num a, Num b) \<Rightarrow> zipLoop row a b prev
      | _ \<Rightarrow> prev)"

text \<open>\<open>counties?.forEach(county => setRows(prev => [...prev, row(county)]))\<close>.\<close>

definition countyRows :: "(string \<Rightarrow> 'row) \<Rightarrow> string list option \<Rightarrow> 'row list \<Rightarrow> 'row list" where
  "countyRows row cs prev =
     (case cs of
        None \<Rightarrow> prev
      | Some ys \<Rightarrow> foldl (\<lambda>acc county. acc @ [row county]) prev ys)"

section \<open>The Assign page (\<open>pages/assign.tsx\<close>)\<close>

record AssignmentFormValues =
  typeId :: string
  repId :: string
  mode :: Mode
  counties :: "string list option"
  zipFrom :: "string option"
  zipTo :: "string option"

definition assignmentFormSchema :: "AssignmentFormValues \<Rightarrow> bool" where
  "assignmentFormSchema data =
     (length (AssignmentFormValues.typeId data) \<ge> 1
      \<and> length (AssignmentFormValues.repId data) \<ge> 1
      \<and> selectorRefine (AssignmentFormValues.mode data) (AssignmentFormValues.counties data)
            (AssignmentFormValues.zipFrom data) (AssignmentFormValues.zipTo data))"

text \<open>
  A row of the preview table. The source's row also has an \<open>id\<close>
  (\<open>Date.now() + Math.random()\<close>), which only serves to delete the row from the table;
  it is left out.
\<close>

record AssignmentDisplay =
  typeId :: jsnum
  typeName :: string
  repId :: jsnum
  repName :: string
  location :: string

text \<open>
  The component's state, with the service it works on. The \<open>loading\<close> flag, the
  confirmation dialog and the form's own fields (reset after a submit) are not part of
  it: a handler is given the submitted form values.
\<close>

record AssignPage =
  service :: AssignmentService
  salesReps :: "DropdownOption list"
  selectedRepType :: "string option"
  assignments :: "AssignmentDisplay list"

definition assignRequestOf :: "AssignmentFormValues \<Rightarrow> ValidateAssignmentRequest" where
  "assignRequestOf data =
     \<lparr>ValidateAssignmentRequest.typeId = parseInt (AssignmentFormValues.typeId data),
      ValidateAssignmentRequest.repId = parseInt (AssignmentFormValues.repId data),
      ValidateAssignmentRequest.counties =
        (if AssignmentFormValues.mode data = County then AssignmentFormValues.counties data
         else None),
      ValidateAssignmentRequest.zipFrom =
        (if AssignmentFormValues.mode data = County then None
         else AssignmentFormValues.zipFrom data),
      ValidateAssignmentRequest.zipTo =
        (if AssignmentFormValues.mode data = County then None
         else AssignmentFormValues.zipTo data)\<rparr>"

definition assignmentRow ::
  "AssignmentFormValues \<Rightarrow> AssignPage \<Rightarrow> string \<Rightarrow> string \<Rightarrow> AssignmentDisplay" where
  "assignmentRow data page rName loc =
     \<lparr>AssignmentDisplay.typeId = parseInt (AssignmentFormValues.typeId data),
      typeName = orElse (selectedRepType page) [],
      AssignmentDisplay.repId = parseInt (AssignmentFormValues.repId data),
      repName = rName,
      location = loc\<rparr>"

definition Assign_onSubmit :: "AssignmentFormValues \<Rightarrow> AssignPage \<Rightarrow> toast \<times> AssignPage" where
  "Assign_onSubmit data page =
     (let assignRequest = assignRequestOf data;
          validationResult = validate (Some assignRequest)
      in if \<not> valid validationResult
         then (ShowError (join (errors validationResult) '', ''), page)
         else
           let service' = addAssign assignRequest (service page);
               rName = orElse
                 (map_option label
                    (findFirst (salesReps page)
                       (\<lambda>r. value r = AssignmentFormValues.repId data)))
                 ''Unknown'';
               rows =
                 (if AssignmentFormValues.mode data = County
                  then countyRows (assignmentRow data page rName)
                         (AssignmentFormValues.counties data) (assignments page)
                  else zipRows (assignmentRow data page rName)
                         (parseInt (orElse (AssignmentFormValues.zipFrom data) ''0''))
                         (parseInt (orElse (AssignmentFormValues.zipTo data) ''0''))
                         (assignments page))
           in (ShowSuccess ''Assignment added successfully'',
               page\<lparr>service := service', assignments := rows\<rparr>))"

text \<open>
  \<open>handleRemoveAssignment\<close>, as what it does to the service's staging: it looks for the
  first staged operation that matches the row and removes it by index. (It also deletes
  the row from the table, by \<open>id\<close>.)
\<close>

definition assignMatches :: "AssignmentDisplay \<Rightarrow> ValidateAssignmentRequest \<Rightarrow> bool" where
  "assignMatches item a =
     (strictEq (ValidateAssignmentRequest.typeId a) (AssignmentDisplay.typeId item)
      \<and> strictEq (ValidateAssignmentRequest.repId a) (AssignmentDisplay.repId item)
      \<and> (includesOpt (ValidateAssignmentRequest.counties a) (location item)
         \<or> ValidateAssignmentRequest.zipFrom a = Some (location item)
         \<or> ValidateAssignmentRequest.zipTo a = Some (location item)))"

definition handleRemoveAssignment :: "AssignmentDisplay \<Rightarrow> AssignmentService \<Rightarrow> AssignmentService" where
  "handleRemoveAssignment item this =
     (let serviceAssigns = get_assigns this;
          indexToRemove = findIndex serviceAssigns (assignMatches item)
      in if indexToRemove \<ge> 0 then removeAssign indexToRemove this else this)"

text \<open>
  \<open>handleConfirmSubmit\<close>: on success the preview is emptied and \<open>reset()\<close> returns
  the form to its defaults; the rep type is empty again, and the effect that watches it
  clears the sales rep options (\<open>setSalesReps([])\<close>). \<open>selectedRepType\<close> is not
  touched.
\<close>

definition Assign_handleConfirmSubmit :: "AssignPage \<Rightarrow> toast \<times> AssignPage" where
  "Assign_handleConfirmSubmit page =
     (let (result, service') =
            batchUpdate
              (Some \<lparr>assigns = get_assigns (service page),
                     reassigns = get_reassigns (service page)\<rparr>)
              (service page)
      in if success result
         then (ShowSuccess ''Assignments applied successfully'',
               page\<lparr>service := service', assignments := [], salesReps := []\<rparr>)
         else (ShowError ''Failed to apply assignments'', page\<lparr>service := service'\<rparr>))"

section \<open>The Reassign page (\<open>pages/reassign.tsx\<close>)\<close>

record ReassignmentFormValues =
  typeId :: string
  fromRepId :: string
  toRepId :: string
  mode :: Mode
  counties :: "string list option"
  zipFrom :: "string option"
  zipTo :: "string option"

definition reassignmentFormSchema :: "ReassignmentFormValues \<Rightarrow> bool" where
  "reassignmentFormSchema data =
     (length (ReassignmentFormValues.typeId data) \<ge> 1
      \<and> length (ReassignmentFormValues.fromRepId data) \<ge> 1
      \<and> length (ReassignmentFormValues.toRepId data) \<ge> 1
      \<and> selectorRefine (ReassignmentFormValues.mode data)
            (ReassignmentFormValues.counties data)
            (ReassignmentFormValues.zipFrom data) (ReassignmentFormValues.zipTo data))"

text \<open>A row of the preview table, again without its \<open>id\<close>.\<close>

record ReassignmentDisplay =
  typeId :: jsnum
  typeName :: string
  fromRepId :: jsnum
  fromRepName :: string
  toRepId :: jsnum
  toRepName :: string
  location :: string

record CurrentTerritory =
  zipCode :: string
  countyName :: "string option"

record ReassignPage =
  service :: AssignmentService
  fromSalesReps :: "DropdownOption list"
  toSalesReps :: "DropdownOption list"
  currentTerritories :: "CurrentTerritory list"
  selectedRepType :: "string option"
  reassignments :: "ReassignmentDisplay list"

subsection \<open>The dependent option lists\<close>

text \<open>
  Each effect is modelled by the value it stores: \<open>loadSalesReps\<close> gives the new
  \<open>fromSalesReps\<close>, \<open>loadToSalesReps\<close> the new \<open>toSalesReps\<close> and
  \<open>loadCurrentTerritories\<close> the new \<open>currentTerritories\<close>, from the watched form
  values; an empty watched value (falsy) clears the list.
\<close>

definition loadSalesReps :: "string \<Rightarrow> DropdownOption list" where
  "loadSalesReps watchTypeId =
     (if watchTypeId = [] then []
      else map repOption (getSalesReps (parseInt watchTypeId)))"

definition loadToSalesReps :: "string \<Rightarrow> string \<Rightarrow> DropdownOption list" where
  "loadToSalesReps watchTypeId watchFromRepId =
     (if watchTypeId = [] \<or> watchFromRepId = [] then []
      else
        let reps = getSalesReps (parseInt watchTypeId);
            filteredReps = filter (\<lambda>rep. toString (SalesRepId rep) \<noteq> watchFromRepId) reps
        in map repOption filteredReps)"

definition getCountyForZip :: "string \<Rightarrow> string" where
  "getCountyForZip z =
     (case map_of
        [(''80019'', ''Adams''), (''80022'', ''Adams''), (''80024'', ''Adams''),
         (''80030'', ''Adams''), (''80031'', ''Adams''), (''80301'', ''Boulder''),
         (''80302'', ''Boulder''), (''80303'', ''Boulder''), (''80037'', ''Adams''),
         (''80045'', ''Adams'')] z of
        Some c \<Rightarrow> c
      | None \<Rightarrow> ''Unknown'')"

definition loadCurrentTerritories :: "string \<Rightarrow> CurrentTerritory list" where
  "loadCurrentTerritories watchFromRepId =
     (if watchFromRepId = [] then []
      else map (\<lambda>a. \<lparr>zipCode = ZipCode a, countyName = Some (getCountyForZip (ZipCode a))\<rparr>)
             (getCurrentAssignments (parseInt watchFromRepId)))"

subsection \<open>Submitting the form\<close>

text \<open>
  The ownership loop of \<open>onSubmit\<close>: every ZIP code of the range is looked up in
  \<open>currentTerritories\<close>; the loop state is the pair of \<open>allZipsValid\<close> and
  \<open>invalidZips\<close>.
\<close>

function ownershipLoop ::
  "CurrentTerritory list \<Rightarrow> int \<Rightarrow> int \<Rightarrow> bool \<times> string list \<Rightarrow> bool \<times> string list" where
  "ownershipLoop territories z zTo (allZipsValid, invalidZips) =
     (if z \<le> zTo
      then
        let code = padStart (toString (Num z)) 5 ''0'';
            isAssigned = list_ex (\<lambda>t. zipCode t = code) territories
        in if \<not> isAssigned
           then ownershipLoop territories (z + 1) zTo (False, invalidZips @ [code])
           else ownershipLoop territories (z + 1) zTo (allZipsValid, invalidZips)
      else (allZipsValid, invalidZips))"
  by pat_completeness auto
termination
  by (relation "measure (\<lambda>(territories, z, zTo, st). nat (zTo - z + 1))") auto

declare ownershipLoop.simps [simp del]

definition ownershipCheck ::
  "CurrentTerritory list \<Rightarrow> jsnum \<Rightarrow> jsnum \<Rightarrow> bool \<times> string list" where
  "ownershipCheck territories zFrom zTo =
     (case (zFrom, zTo) of
        (Num a, Num b) \<Rightarrow> ownershipLoop territories a b (True, [])
      | _ \<Rightarrow> (True, []))"

text \<open>
  The check in the words of the specification, to compare the loop with: the offending
  ZIP codes are the ZIP codes of the expanded range that the snapshot does not hold, in
  the order of the range.
\<close>

definition offendingZips :: "CurrentTerritory list \<Rightarrow> jsnum \<Rightarrow> jsnum \<Rightarrow> string list" where
  "offendingZips territories zFrom zTo =
     filter (\<lambda>c. \<not> list_ex (\<lambda>t. zipCode t = c) territories)
       (zipRows (\<lambda>loc. loc) zFrom zTo [])"

definition reassignRequestOf :: "ReassignmentFormValues \<Rightarrow> ReassignRequest" where
  "reassignRequestOf data =
     \<lparr>ReassignRequest.typeId = parseInt (ReassignmentFormValues.typeId data),
      ReassignRequest.fromRepId = parseInt (ReassignmentFormValues.fromRepId data),
      ReassignRequest.toRepId = parseInt (ReassignmentFormValues.toRepId data),
      ReassignRequest.counties =
        (if ReassignmentFormValues.mode data = County then ReassignmentFormValues.counties data
         else None),
      ReassignRequest.zipFrom =
        (if ReassignmentFormValues.mode data = County then None
         else ReassignmentFormValues.zipFrom data),
      ReassignRequest.zipTo =
        (if ReassignmentFormValues.mode data = County then None
         else ReassignmentFormValues.zipTo data)\<rparr>"

definition reassignmentRow ::
  "ReassignmentFormValues \<Rightarrow> ReassignPage \<Rightarrow> string \<Rightarrow> string \<Rightarrow> string
     \<Rightarrow> ReassignmentDisplay" where
  "reassignmentRow data page fromName toName loc =
     \<lparr>ReassignmentDisplay.typeId = parseInt (ReassignmentFormValues.typeId data),
      typeName = orElse (ReassignPage.selectedRepType page) [],
      ReassignmentDisplay.fromRepId = parseInt (ReassignmentFormValues.fromRepId data),
      fromRepName = fromName,
      ReassignmentDisplay.toRepId = parseInt (ReassignmentFormValues.toRepId data),
      toRepName = toName,
      location = loc\<rparr>"

definition Reassign_onSubmit ::
  "ReassignmentFormValues \<Rightarrow> ReassignPage \<Rightarrow> toast \<times> ReassignPage" where
  "Reassign_onSubmit data page =
     (let reassignRequest = reassignRequestOf data;
          (allZipsValid, invalidZips) =
            (if ReassignmentFormValues.mode data = Zip
             then ownershipCheck (currentTerritories page)
                    (parseInt (orElse (ReassignmentFormValues.zipFrom data) ''0''))
                    (parseInt (orElse (ReassignmentFormValues.zipTo data) ''0''))
             else (True, []))
      in if \<not> allZipsValid
         then (ShowError (''Some ZIPs are not assigned to the selected rep: ''
                            @ join invalidZips '', ''), page)
         else
           let service' = addReassign reassignRequest (ReassignPage.service page);
               fromName = orElse
                 (map_option label
                    (findFirst (fromSalesReps page)
                       (\<lambda>r. value r = ReassignmentFormValues.fromRepId data)))
                 ''Unknown'';
               toName = orElse
                 (map_option label
                    (findFirst (toSalesReps page)
                       (\<lambda>r. value r = ReassignmentFormValues.toRepId data)))
                 ''Unknown'';
               rows =
                 (if ReassignmentFormValues.mode data = County
                  then countyRows (reassignmentRow data page fromName toName)
                         (ReassignmentFormValues.counties data) (reassignments page)
                  else zipRows (reassignmentRow data page fromName toName)
                         (parseInt (orElse (ReassignmentFormValues.zipFrom data) ''0''))
                         (parseInt (orElse (ReassignmentFormValues.zipTo data) ''0''))
                         (reassignments page))
           in (ShowSuccess ''Reassignment added successfully'',
               page\<lparr>ReassignPage.service := service', reassignments := rows\<rparr>))"

definition reassignMatches :: "ReassignmentDisplay \<Rightarrow> ReassignRequest \<Rightarrow> bool" where
  "reassignMatches item r =
     (strictEq (ReassignRequest.typeId r) (ReassignmentDisplay.typeId item)
      \<and> strictEq (ReassignRequest.fromRepId r) (ReassignmentDisplay.fromRepId item)
      \<and> strictEq (ReassignRequest.toRepId r) (ReassignmentDisplay.toRepId item)
      \<and> (includesOpt (ReassignRequest.counties r) (ReassignmentDisplay.location item)
         \<or> ReassignRequest.zipFrom r = Some (ReassignmentDisplay.location item)
         \<or> ReassignRequest.zipTo r = Some (ReassignmentDisplay.location item)))"

definition handleRemoveReassignment ::
  "ReassignmentDisplay \<Rightarrow> AssignmentService \<Rightarrow> AssignmentService" where
  "handleRemoveReassignment item this =
     (let serviceReassigns = get_reassigns this;
          indexToRemove = findIndex serviceReassigns (reassignMatches item)
      in if indexToRemove \<ge> 0 then removeReassign indexToRemove this else this)"

text \<open>
  \<open>handleConfirmSubmit\<close>: on success the preview is emptied and \<open>reset()\<close> returns
  the form to its defaults; the rep type and the source rep are empty again, and the
  effects that watch them clear the two lists of rep options and the current
  territories. \<open>selectedRepType\<close> is not touched.
\<close>

definition Reassign_handleConfirmSubmit :: "ReassignPage \<Rightarrow> toast \<times> ReassignPage" where
  "Reassign_handleConfirmSubmit page =
     (let (result, service') =
            batchUpdate
              (Some \<lparr>assigns = get_assigns (ReassignPage.service page),
                     reassigns = get_reassigns (ReassignPage.service page)\<rparr>)
              (ReassignPage.service page)
      in if success result
         then (ShowSuccess ''Reassignments applied successfully'',
               page\<lparr>ReassignPage.service := service', reassignments := [],
                    fromSalesReps := [], toSalesReps := [], currentTerritories := []\<rparr>)
         else (ShowError ''Failed to apply reassignments'',
               page\<lparr>ReassignPage.service := service'\<rparr>))"

section \<open>The service object on a heap\<close>

text \<open>
  The getters \<open>assigns\<close> and \<open>reassigns\<close> return \<open>[...this._assigns]\<close> and
  \<open>[...this._reassigns]\<close>: new arrays with the elements of the private ones. What a
  caller can do to the store through such an array depends on which array object it is,
  so here arrays and operation objects live on a heap, at addresses: an array holds the
  addresses of its elements, and the service object holds the addresses of its two
  private arrays. A method that mutates an array in place (\<open>push\<close>, \<open>splice\<close>) writes
  to the heap at the array's address; an assignment \<open>this._assigns = []\<close> allocates an
  array and re-points the field.
\<close>

type_synonym addr = nat

record heap =
  assignObjs :: "addr \<rightharpoonup> ValidateAssignmentRequest"
  reassignObjs :: "addr \<rightharpoonup> ReassignRequest"
  assignArrays :: "addr \<rightharpoonup> addr list"
  reassignArrays :: "addr \<rightharpoonup> addr list"
  nextAddr :: addr

text \<open>The service object: its fields \<open>_assigns\<close> and \<open>_reassigns\<close> refer to arrays.\<close>

record serviceObj =
  assignsRef :: addr
  reassignsRef :: addr

definition emptyHeap :: heap where
  "emptyHeap =
     \<lparr>assignObjs = Map.empty, reassignObjs = Map.empty,
      assignArrays = Map.empty, reassignArrays = Map.empty, nextAddr = 0\<rparr>"

subsection \<open>Allocation, reading and writing\<close>

text \<open>An object literal allocates an operation object; an array literal or a spread an array.\<close>

definition newAssignObj :: "ValidateAssignmentRequest \<Rightarrow> heap \<Rightarrow> addr \<times> heap" where
  "newAssignObj op h =
     (nextAddr h,
      h\<lparr>assignObjs := (assignObjs h)(nextAddr h \<mapsto> op), nextAddr := Suc (nextAddr h)\<rparr>)"

definition newReassignObj :: "ReassignRequest \<Rightarrow> heap \<Rightarrow> addr \<times> heap" where
  "newReassignObj op h =
     (nextAddr h,
      h\<lparr>reassignObjs := (reassignObjs h)(nextAddr h \<mapsto> op), nextAddr := Suc (nextAddr h)\<rparr>)"

definition newAssignArray :: "addr list \<Rightarrow> heap \<Rightarrow> addr \<times> heap" where
  "newAssignArray rs h =
     (nextAddr h,
      h\<lparr>assignArrays := (assignArrays h)(nextAddr h \<mapsto> rs), nextAddr := Suc (nextAddr h)\<rparr>)"

definition newReassignArray :: "addr list \<Rightarrow> heap \<Rightarrow> addr \<times> heap" where
  "newReassignArray rs h =
     (nextAddr h,
      h\<lparr>reassignArrays := (reassignArrays h)(nextAddr h \<mapsto> rs),
        nextAddr := Suc (nextAddr h)\<rparr>)"

text \<open>The elements of an array, as references.\<close>

definition assignRefs :: "addr \<Rightarrow> heap \<Rightarrow> addr list" where
  "assignRefs a h = (case assignArrays h a of None \<Rightarrow> [] | Some rs \<Rightarrow> rs)"

definition reassignRefs :: "addr \<Rightarrow> heap \<Rightarrow> addr list" where
  "reassignRefs a h = (case reassignArrays h a of None \<Rightarrow> [] | Some rs \<Rightarrow> rs)"

text \<open>The sequence of operations that an array holds: its references, followed.\<close>

definition readAssigns :: "addr \<Rightarrow> heap \<Rightarrow> ValidateAssignmentRequest list" where
  "readAssigns a h = List.map_filter (assignObjs h) (assignRefs a h)"

definition readReassigns :: "addr \<Rightarrow> heap \<Rightarrow> ReassignRequest list" where
  "readReassigns a h = List.map_filter (reassignObjs h) (reassignRefs a h)"

text \<open>
  Any mutation of the array at an address (a write at an index, \<open>push\<close>, \<open>splice\<close>,
  \<open>sort\<close>, \<open>length = 0\<close>, ...), given as the function \<open>f\<close> on its elements.
\<close>

definition mutateAssignArray :: "addr \<Rightarrow> (addr list \<Rightarrow> addr list) \<Rightarrow> heap \<Rightarrow> heap" where
  "mutateAssignArray a f h =
     h\<lparr>assignArrays := (assignArrays h)(a := map_option f (assignArrays h a))\<rparr>"

definition mutateReassignArray :: "addr \<Rightarrow> (addr list \<Rightarrow> addr list) \<Rightarrow> heap \<Rightarrow> heap" where
  "mutateReassignArray a f h =
     h\<lparr>reassignArrays := (reassignArrays h)(a := map_option f (reassignArrays h a))\<rparr>"

text \<open>A write to fields of the operation object at an address.\<close>

definition writeAssignObj ::
  "addr \<Rightarrow> (ValidateAssignmentRequest \<Rightarrow> ValidateAssignmentRequest) \<Rightarrow> heap \<Rightarrow> heap" where
  "writeAssignObj r g h =
     h\<lparr>assignObjs := (assignObjs h)(r := map_option g (assignObjs h r))\<rparr>"

subsection \<open>The methods\<close>

definition newServiceObj :: "heap \<Rightarrow> serviceObj \<times> heap" where
  "newServiceObj h =
     (let (a, h1) = newAssignArray [] h;
          (r, h2) = newReassignArray [] h1
      in (\<lparr>assignsRef = a, reassignsRef = r\<rparr>, h2))"

definition assignsGetter :: "serviceObj \<Rightarrow> heap \<Rightarrow> addr \<times> heap" where
  "assignsGetter this h = newAssignArray (assignRefs (assignsRef this) h) h"

definition reassignsGetter :: "serviceObj \<Rightarrow> heap \<Rightarrow> addr \<times> heap" where
  "reassignsGetter this h = newReassignArray (reassignRefs (reassignsRef this) h) h"

text \<open>\<open>addAssign\<close> and \<open>addReassign\<close> push the reference they are given.\<close>

definition addAssignObj :: "addr \<Rightarrow> serviceObj \<Rightarrow> heap \<Rightarrow> heap" where
  "addAssignObj assign this h = mutateAssignArray (assignsRef this) (\<lambda>rs. rs @ [assign]) h"

definition addReassignObj :: "addr \<Rightarrow> serviceObj \<Rightarrow> heap \<Rightarrow> heap" where
  "addReassignObj reassign this h =
     mutateReassignArray (reassignsRef this) (\<lambda>rs. rs @ [reassign]) h"

definition removeAssignObj :: "int \<Rightarrow> serviceObj \<Rightarrow> heap \<Rightarrow> heap" where
  "removeAssignObj index this h =
     (if index \<ge> 0 \<and> index < int (length (assignRefs (assignsRef this) h))
      then mutateAssignArray (assignsRef this) (\<lambda>rs. splice rs index 1) h
      else h)"

definition removeReassignObj :: "int \<Rightarrow> serviceObj \<Rightarrow> heap \<Rightarrow> heap" where
  "removeReassignObj index this h =
     (if index \<ge> 0 \<and> index < int (length (reassignRefs (reassignsRef this) h))
      then mutateReassignArray (reassignsRef this) (\<lambda>rs. splice rs index 1) h
      else h)"

text \<open>\<open>this._assigns = []\<close> points the field to a new, empty array.\<close>

definition clearAssignsObj :: "serviceObj \<Rightarrow> heap \<Rightarrow> serviceObj \<times> heap" where
  "clearAssignsObj this h =
     (let (a, h1) = newAssignArray [] h in (this\<lparr>assignsRef := a\<rparr>, h1))"

definition clearReassignsObj :: "serviceObj \<Rightarrow> heap \<Rightarrow> serviceObj \<times> heap" where
  "clearReassignsObj this h =
     (let (r, h1) = newReassignArray [] h in (this\<lparr>reassignsRef := r\<rparr>, h1))"

definition clearAllObj :: "serviceObj \<Rightarrow> heap \<Rightarrow> serviceObj \<times> heap" where
  "clearAllObj this h =
     (let (this1, h1) = clearAssignsObj this h in clearReassignsObj this1 h1)"

definition batchUpdateObj ::
  "BatchAssignmentUpdateRequest option \<Rightarrow> serviceObj \<Rightarrow> heap
     \<Rightarrow> BatchAssignmentUpdateResponse \<times> serviceObj \<times> heap" where
  "batchUpdateObj request this h =
     (case request of
        None \<Rightarrow> (\<lparr>success = False\<rparr>, this, h)
      | Some r \<Rightarrow>
          if hasInvalidReassign (reassigns r) then (\<lparr>success = False\<rparr>, this, h)
          else
            let (this1, h1) = clearAssignsObj this h;
                (this2, h2) = clearReassignsObj this1 h1
            in (\<lparr>success = True\<rparr>, this2, h2))"

subsection \<open>The staged sequences of a service object\<close>

text \<open>
  The staging store that the sequence model works on, read off the heap; and what holds
  of a service object at any time: its fields refer to allocated arrays whose elements
  refer to operation objects.
\<close>

definition stagingOf :: "serviceObj \<Rightarrow> heap \<Rightarrow> AssignmentService" where
  "stagingOf this h =
     \<lparr>p_assigns = readAssigns (assignsRef this) h,
      p_reassigns = readReassigns (reassignsRef this) h\<rparr>"

definition allocated :: "serviceObj \<Rightarrow> heap \<Rightarrow> bool" where
  "allocated this h =
     (assignsRef this < nextAddr h \<and> reassignsRef this < nextAddr h
      \<and> (case assignArrays h (assignsRef this) of
            None \<Rightarrow> False
          | Some rs \<Rightarrow> list_all (\<lambda>r. assignObjs h r \<noteq> None) rs)
      \<and> (case reassignArrays h (reassignsRef this) of
            None \<Rightarrow> False
          | Some rs \<Rightarrow> list_all (\<lambda>r. reassignObjs h r \<noteq> None) rs))"

section \<open>Example inputs\<close>

text \<open>The operations of the scenarios: a one-ZIP assignment, and two reassignments.\<close>

definition assign80010 :: ValidateAssignmentRequest where
  "assign80010 =
     \<lparr>ValidateAssignmentRequest.typeId = Num 1, ValidateAssignmentRequest.repId = Num 101,
      ValidateAssignmentRequest.counties = None,
      ValidateAssignmentRequest.zipFrom = Some ''80010'',
      ValidateAssignmentRequest.zipTo = Some ''80010''\<rparr>"

definition reassign101to201 :: ReassignRequest where
  "reassign101to201 =
     \<lparr>ReassignRequest.typeId = Num 1, ReassignRequest.fromRepId = Num 101,
      ReassignRequest.toRepId = Num 201, ReassignRequest.counties = Some [''Adams''],
      ReassignRequest.zipFrom = None, ReassignRequest.zipTo = None\<rparr>"

definition reassign101to102 :: ReassignRequest where
  "reassign101to102 =
     \<lparr>ReassignRequest.typeId = Num 1, ReassignRequest.fromRepId = Num 101,
      ReassignRequest.toRepId = Num 102, ReassignRequest.counties = None,
      ReassignRequest.zipFrom = Some ''80019'', ReassignRequest.zipTo = Some ''80019''\<rparr>"

text \<open>
  An Assign page and a Reassign page as they are once rep type 1 (and, for Reassign, the
  source rep 101) has been chosen, with nothing staged; and the forms' values for a
  selector, with rep 101 (and target rep 102): a county list selects county mode, the
  empty county list ZIP mode.
\<close>

definition assignPage0 :: AssignPage where
  "assignPage0 =
     \<lparr>AssignPage.service = newAssignmentService,
      salesReps = loadSalesReps ''1'',
      AssignPage.selectedRepType = Some ''Inside'',
      assignments = []\<rparr>"

definition reassignPage0 :: ReassignPage where
  "reassignPage0 =
     \<lparr>ReassignPage.service = newAssignmentService,
      fromSalesReps = loadSalesReps ''1'',
      toSalesReps = loadToSalesReps ''1'' ''101'',
      currentTerritories = loadCurrentTerritories ''101'',
      ReassignPage.selectedRepType = Some ''Inside'',
      reassignments = []\<rparr>"

definition assignForm :: "string list option \<Rightarrow> string \<Rightarrow> string \<Rightarrow> AssignmentFormValues" where
  "assignForm cs zf zt =
     \<lparr>AssignmentFormValues.typeId = ''1'', AssignmentFormValues.repId = ''101'',
      AssignmentFormValues.mode = (if cs = Some [] then Zip else County),
      AssignmentFormValues.counties = cs,
      AssignmentFormValues.zipFrom = Some zf, AssignmentFormValues.zipTo = Some zt\<rparr>"

definition reassignForm ::
  "string list option \<Rightarrow> string \<Rightarrow> string \<Rightarrow> ReassignmentFormValues" where
  "reassignForm cs zf zt =
     \<lparr>ReassignmentFormValues.typeId = ''1'', ReassignmentFormValues.fromRepId = ''101'',
      ReassignmentFormValues.toRepId = ''102'',
      ReassignmentFormValues.mode = (if cs = Some [] then Zip else County),
      ReassignmentFormValues.counties = cs,
      ReassignmentFormValues.zipFrom = Some zf, ReassignmentFormValues.zipTo = Some zt\<rparr>"

text \<open>The snapshot of the ownership scenario: rep 101 holds 80019 and 80022.\<close>

definition territories_80019_80022 :: "CurrentTerritory list" where
  "territories_80019_80022 =
     [\<lparr>zipCode = ''80019'', countyName = Some ''Adams''\<rparr>,
      \<lparr>zipCode = ''80022'', countyName = Some ''Adams''\<rparr>]"

text \<open>
  A service object on an empty heap with the one-ZIP assignment staged: the operation
  object is allocated, then pushed.
\<close>

definition stagedObj :: serviceObj where
  "stagedObj = fst (newServiceObj emptyHeap)"

definition stagedHeap :: heap where
  "stagedHeap =
     (let (r, h) = newAssignObj assign80010 (snd (newServiceObj emptyHeap))
      in addAssignObj r stagedObj h)"

text \<open>
  A Reassign page with source rep 102 chosen, who holds 80030, 80031, 80301 and 80302,
  and the form that moves the range from 80030 to 80031 to rep 101.
\<close>

definition reassignPage102 :: ReassignPage where
  "reassignPage102 =
     \<lparr>ReassignPage.service = newAssignmentService,
      fromSalesReps = loadSalesReps ''1'',
      toSalesReps = loadToSalesReps ''1'' ''102'',
      currentTerritories = loadCurrentTerritories ''102'',
      ReassignPage.selectedRepType = Some ''Inside'',
      reassignments = []\<rparr>"

definition reassignForm102 :: ReassignmentFormValues where
  "reassignForm102 =
     \<lparr>ReassignmentFormValues.typeId = ''1'', ReassignmentFormValues.fromRepId = ''102'',
      ReassignmentFormValues.toRepId = ''101'', ReassignmentFormValues.mode = Zip,
      ReassignmentFormValues.counties = Some [],
      ReassignmentFormValues.zipFrom = Some ''80030'',
      ReassignmentFormValues.zipTo = Some ''80031''\<rparr>"

section \<open>Properties of the built-ins\<close>

subsection \<open>Digit strings and their values\<close>

lemma digitValue_digitChar: "d < 10 \<Longrightarrow> digitValue (digitChar d) = Some d"
proof -
  assume "d < 10"
  then have "d \<in> {0, 1, 2, 3, 4, 5, 6, 7, 8, 9}" by auto
  then show ?thesis
    by (auto simp: digitValue_def digitChar_def digitTable_def)
qed

lemma isDigit_digitChar: "d < 10 \<Longrightarrow> isDigit (digitChar d)"
  by (simp add: isDigit_def digitValue_digitChar)

lemma digitChar_digitValue: "digitValue c = Some d \<Longrightarrow> d < 10 \<Longrightarrow> digitChar d = c"
  unfolding digitValue_def digitTable_def digitChar_def
  by (auto split: if_splits)

lemma isDigit_ex: "isDigit c \<Longrightarrow> \<exists>d<10. c = digitChar d"
  unfolding isDigit_def
  by (auto split: option.splits dest: digitChar_digitValue)

lemma digit_string_ex:
  "list_all isDigit s \<Longrightarrow> \<exists>ds. s = map digitChar ds \<and> list_all (\<lambda>d. d < 10) ds"
proof (induction s)
  case Nil
  then show ?case by simp
next
  case (Cons c s)
  then obtain ds where ds: "s = map digitChar ds" "list_all (\<lambda>d. d < 10) ds" by auto
  from Cons.prems obtain d where d: "d < 10" "c = digitChar d"
    using isDigit_ex by auto
  show ?case
    by (rule exI [of _ "d # ds"]) (use ds d in simp)
qed

lemma scanDigits_map:
  "list_all (\<lambda>d. d < 10) ds \<Longrightarrow> scanDigits 10 (map digitChar ds) = ds"
  by (induction ds) (simp_all add: digitValue_digitChar)

lemma radixValue_snoc: "radixValue r (ds @ [d]) = radixValue r ds * r + d"
  by (simp add: radixValue_def)

lemma radixValue_Nil: "radixValue r [] = 0"
  by (simp add: radixValue_def)

lemma radixValue_natDigits: "radixValue 10 (natDigits n) = n"
proof (induction n rule: natDigits.induct)
  case (1 n)
  show ?case
  proof (cases "n < 10")
    case True
    then show ?thesis by (simp add: natDigits.simps [of n] radixValue_def)
  next
    case False
    then show ?thesis
      using 1 by (simp add: natDigits.simps [of n] radixValue_snoc)
  qed
qed

lemma natDigits_lt10: "list_all (\<lambda>d. d < 10) (natDigits n)"
proof (induction n rule: natDigits.induct)
  case (1 n)
  show ?case
  proof (cases "n < 10")
    case True
    then show ?thesis by (simp add: natDigits.simps [of n])
  next
    case False
    then show ?thesis
      using 1 by (simp add: natDigits.simps [of n])
  qed
qed

lemma natDigits_nonempty: "natDigits n \<noteq> []"
  by (subst natDigits.simps) simp

lemma natDigits_length: "n < 10 ^ k \<Longrightarrow> 0 < k \<Longrightarrow> length (natDigits n) \<le> k"
proof (induction n arbitrary: k rule: natDigits.induct)
  case (1 n)
  show ?case
  proof (cases "n < 10")
    case True
    then show ?thesis using "1.prems" by (simp add: natDigits.simps [of n])
  next
    case False
    then obtain j where j: "k = Suc j" using "1.prems" by (cases k) auto
    have "j \<noteq> 0" using False "1.prems" j by (cases j) auto
    moreover have "n div 10 < 10 ^ j" using "1.prems" j
      by (simp add: less_mult_imp_div_less mult.commute)
    ultimately have "length (natDigits (n div 10)) \<le> j"
      using "1.IH" [OF False, of j] by simp
    then show ?thesis using False j by (simp add: natDigits.simps [of n])
  qed
qed

lemma radixValue_replicate0: "radixValue 10 (replicate k 0 @ ds) = radixValue 10 ds"
proof -
  have "foldl (\<lambda>a d. a * 10 + d) 0 (replicate k (0::nat)) = 0"
    by (induction k) simp_all
  then show ?thesis by (simp add: radixValue_def)
qed

lemma radixValue_zero_set: "radixValue 10 ds = 0 \<Longrightarrow> \<forall>d\<in>set ds. d = 0"
  by (induction ds rule: rev_induct) (simp_all add: radixValue_snoc)

lemma radixValue_zero:
  "radixValue 10 ds = 0 \<Longrightarrow> ds = replicate (length ds) 0"
  using radixValue_zero_set [of ds] by (simp add: replicate_length_same)

lemma natDigits_step:
  "0 < v \<Longrightarrow> d < 10 \<Longrightarrow> natDigits (v * 10 + d) = natDigits v @ [d]"
  by (subst natDigits.simps) simp

lemma natDigits_small: "d < 10 \<Longrightarrow> natDigits d = [d]"
  by (subst natDigits.simps) simp

text \<open>Padding the digits of the value of a digit string back to its length gives the string.\<close>
lemma pad_natDigits_radixValue:
  "list_all (\<lambda>d. d < 10) ds \<Longrightarrow> ds \<noteq> [] \<Longrightarrow>
   replicate (length ds - length (natDigits (radixValue 10 ds))) 0
     @ natDigits (radixValue 10 ds) = ds"
proof (induction ds rule: rev_induct)
  case Nil
  then show ?case by simp
next
  case (snoc d ds)
  then have d: "d < 10" and all: "list_all (\<lambda>d. d < 10) ds" by simp_all
  show ?case
  proof (cases "radixValue 10 ds = 0")
    case True
    then have "ds = replicate (length ds) 0" by (rule radixValue_zero)
    then show ?thesis
      using True d by (simp add: radixValue_snoc natDigits_small)
  next
    case False
    then have ne: "ds \<noteq> []" by (auto simp: radixValue_Nil)
    have "natDigits (radixValue 10 (ds @ [d])) = natDigits (radixValue 10 ds) @ [d]"
      using False d by (simp add: radixValue_snoc natDigits_step)
    then show ?thesis using snoc.IH [OF all ne] by simp
  qed
qed

subsection \<open>Parsing and printing numbers\<close>

lemma digitChar_not_space: "d < 10 \<Longrightarrow> \<not> isWhiteSpace (digitChar d)"
proof -
  assume "d < 10"
  then have "d \<in> {0, 1, 2, 3, 4, 5, 6, 7, 8, 9}" by auto
  then show ?thesis by (auto simp: isWhiteSpace_def digitChar_def)
qed

lemma digitChar_not_sign: "d < 10 \<Longrightarrow> digitChar d \<noteq> CHR ''-'' \<and> digitChar d \<noteq> CHR ''+''"
proof -
  assume "d < 10"
  then have "d \<in> {0, 1, 2, 3, 4, 5, 6, 7, 8, 9}" by auto
  then show ?thesis by (auto simp: digitChar_def)
qed

lemma digitChar_not_x: "d < 10 \<Longrightarrow> digitChar d \<noteq> CHR ''x'' \<and> digitChar d \<noteq> CHR ''X''"
proof -
  assume "d < 10"
  then have "d \<in> {0, 1, 2, 3, 4, 5, 6, 7, 8, 9}" by auto
  then show ?thesis by (auto simp: digitChar_def)
qed

lemma stripRadixPrefix_digits:
  "list_all (\<lambda>d. d < 10) ds \<Longrightarrow> stripRadixPrefix (map digitChar ds) = (10, map digitChar ds)"
proof (cases ds)
  case Nil
  then show ?thesis by (simp add: stripRadixPrefix_def)
next
  case (Cons a as)
  assume all: "list_all (\<lambda>d. d < 10) ds"
  show ?thesis
  proof (cases as)
    case Nil
    with Cons show ?thesis by (simp add: stripRadixPrefix_def)
  next
    case (Cons b bs)
    with all \<open>ds = a # as\<close> have "b < 10" by simp
    then show ?thesis
      using digitChar_not_x [of b] Cons \<open>ds = a # as\<close> by (simp add: stripRadixPrefix_def)
  qed
qed

lemma parseInt_unsigned:
  assumes "list_all (\<lambda>d. d < 10) ds" "ds \<noteq> []"
  shows "parseInt (map digitChar ds) = Num (int (radixValue 10 ds))"
proof -
  from assms obtain a as where ds: "ds = a # as" by (cases ds) auto
  with assms have a: "a < 10" by simp
  have 1: "dropWhile isWhiteSpace (map digitChar ds) = map digitChar ds"
    using ds digitChar_not_space [OF a] by simp
  have 2: "stripSign (map digitChar ds) = (False, map digitChar ds)"
    using ds digitChar_not_sign [OF a] by (simp add: stripSign_def)
  show ?thesis
    using assms
    by (simp add: parseInt_def 1 2 stripRadixPrefix_digits scanDigits_map)
qed

lemma parseInt_negative:
  assumes "list_all (\<lambda>d. d < 10) ds" "ds \<noteq> []"
  shows "parseInt (CHR ''-'' # map digitChar ds) = Num (- int (radixValue 10 ds))"
proof -
  have 1: "\<not> isWhiteSpace CHR ''-''"
    by (simp add: isWhiteSpace_def)
  have 2: "stripSign (CHR ''-'' # map digitChar ds) = (True, map digitChar ds)"
    by (simp add: stripSign_def)
  show ?thesis
    using assms
    by (simp add: parseInt_def 1 2 stripRadixPrefix_digits scanDigits_map)
qed

text \<open>\<open>parseInt\<close> reads back what \<open>toString\<close> prints.\<close>
lemma parseInt_toString: "parseInt (toString (Num n)) = Num n"
proof (cases "n < 0")
  case True
  then show ?thesis
    using parseInt_negative [OF natDigits_lt10 natDigits_nonempty, of "nat (- n)"]
    by (simp add: toString.simps radixValue_natDigits)
next
  case False
  then show ?thesis
    using parseInt_unsigned [OF natDigits_lt10 natDigits_nonempty, of "nat n"]
    by (simp add: toString.simps radixValue_natDigits)
qed

lemma toString_inject: "toString (Num a) = toString (Num b) \<Longrightarrow> a = b"
  by (metis parseInt_toString jsnum.inject)

lemma padStart_zero:
  "padStart s n ''0'' = replicate (n - length s) CHR ''0'' @ s"
proof -
  have "concat (replicate k ''0'') = replicate k CHR ''0''" for k
    by (induction k) simp_all
  then show ?thesis by (simp add: padStart_def)
qed

lemma digitChar_0: "digitChar 0 = CHR ''0''"
  by (simp add: digitChar_def)

text \<open>The ZIP code printed for a number between 0 and 99999.\<close>
lemma zipCode_ex:
  assumes "0 \<le> z" "z < 100000"
  shows "\<exists>ds. padStart (toString (Num z)) 5 ''0'' = map digitChar ds \<and> length ds = 5
              \<and> list_all (\<lambda>d. d < 10) ds \<and> radixValue 10 ds = nat z"
proof -
  let ?p = "replicate (5 - length (natDigits (nat z))) 0 @ natDigits (nat z)"
  have "nat z < 10 ^ 5" using assms by simp
  then have len: "length (natDigits (nat z)) \<le> 5" by (rule natDigits_length) simp
  have e: "padStart (toString (Num z)) 5 ''0'' = map digitChar ?p"
    using assms by (simp add: toString.simps padStart_zero digitChar_0)
  have l: "length ?p = 5" using len by simp
  have a: "list_all (\<lambda>d. d < 10) ?p"
    using natDigits_lt10 [of "nat z"] by (auto simp: list_all_iff)
  have v: "radixValue 10 ?p = nat z"
    by (simp only: radixValue_replicate0 radixValue_natDigits)
  show ?thesis
    by (rule exI [of _ ?p]) (simp only: e l a v simp_thms)
qed

lemma zipCode_five:
  assumes "0 \<le> z" "z < 100000"
  shows "testFiveDigits (padStart (toString (Num z)) 5 ''0'')"
proof -
  from zipCode_ex [OF assms] obtain ds where
    ds: "padStart (toString (Num z)) 5 ''0'' = map digitChar ds" "length ds = 5"
        "list_all (\<lambda>d. d < 10) ds"
    by blast
  from ds(3) have "list_all isDigit (map digitChar ds)"
    by (simp add: list_all_iff isDigit_digitChar)
  then show ?thesis
    unfolding testFiveDigits_def ds(1) using ds(2) by simp
qed

lemma zipCode_parse:
  assumes "0 \<le> z" "z < 100000"
  shows "parseInt (padStart (toString (Num z)) 5 ''0'') = Num z"
proof -
  from zipCode_ex [OF assms] obtain ds where
    ds: "padStart (toString (Num z)) 5 ''0'' = map digitChar ds" "length ds = 5"
        "list_all (\<lambda>d. d < 10) ds" "radixValue 10 ds = nat z"
    by blast
  from ds(2) have "ds \<noteq> []" by auto
  then have "parseInt (map digitChar ds) = Num (int (radixValue 10 ds))"
    using ds(3) by (simp add: parseInt_unsigned)
  then show ?thesis
    unfolding ds(1) using assms by (simp add: ds(4))
qed

lemma radixValue_bound:
  "list_all (\<lambda>d. d < 10) ds \<Longrightarrow> radixValue 10 ds < 10 ^ length ds"
proof (induction ds rule: rev_induct)
  case Nil
  then show ?case by (simp add: radixValue_Nil)
next
  case (snoc d ds)
  then have "radixValue 10 ds < 10 ^ length ds" "d < 10" by simp_all
  then have "radixValue 10 ds * 10 + d < 10 ^ length ds * 10" by arith
  then show ?case by (simp add: radixValue_snoc mult.commute)
qed

text \<open>A five-digit string parses to a number between 0 and 99999 that prints back to it.\<close>
lemma testFiveDigits_parse:
  assumes "testFiveDigits s"
  shows "\<exists>v. parseInt s = Num v \<and> 0 \<le> v \<and> v < 100000
              \<and> padStart (toString (Num v)) 5 ''0'' = s"
proof -
  from assms have len: "length s = 5" and dig: "list_all isDigit s"
    by (simp_all add: testFiveDigits_def)
  from dig obtain ds where ds: "s = map digitChar ds" "list_all (\<lambda>d. d < 10) ds"
    using digit_string_ex by blast
  with len have l5: "length ds = 5" by simp
  then have ne: "ds \<noteq> []" by auto
  let ?v = "int (radixValue 10 ds)"
  have p: "parseInt s = Num ?v" using ds ne by (simp add: parseInt_unsigned)
  have b: "?v < 100000" using radixValue_bound [OF ds(2)] l5 by simp
  have "replicate (5 - length (natDigits (radixValue 10 ds))) 0
          @ natDigits (radixValue 10 ds) = ds"
    using pad_natDigits_radixValue [OF ds(2) ne] l5 by simp
  then have "map digitChar (replicate (5 - length (natDigits (radixValue 10 ds))) 0
          @ natDigits (radixValue 10 ds)) = s"
    by (simp only: ds(1))
  then have "padStart (toString (Num ?v)) 5 ''0'' = s"
    by (simp add: toString.simps padStart_zero digitChar_0)
  with p b show ?thesis by auto
qed

lemma zipLoop_map:
  "zipLoop row a b prev = prev @ map (\<lambda>z. row (padStart (toString (Num z)) 5 ''0'')) [a..b]"
proof (induction row a b prev rule: zipLoop.induct)
  case (1 row z zTo prev)
  show ?case
  proof (cases "z \<le> zTo")
    case True
    then show ?thesis
      using 1 by (subst zipLoop.simps) (simp add: upto_rec1)
  next
    case False
    then show ?thesis by (subst zipLoop.simps) simp
  qed
qed

lemma zipRows_tokens:
  "zipRows row A B prev = prev @ map row (zipRows (\<lambda>loc. loc) A B [])"
  by (simp add: zipRows_def zipLoop_map split: jsnum.splits)


section \<open>The staging store and batch confirmation\<close>

lemma splice_one:
  "0 \<le> i \<Longrightarrow> i < int (length xs) \<Longrightarrow>
   splice xs i 1 = take (nat i) xs @ drop (Suc (nat i)) xs"
  by (simp add: splice_def Let_def min_def max_def nat_add_distrib)

text \<open>
  Claim C1. Batch confirmation is all-or-nothing for the staging store. Whatever the
  request and the store: when \<open>batchUpdate\<close> answers \<open>success = true\<close>, both staged
  sequences are empty afterwards; when it answers \<open>success = false\<close>, the store is
  exactly what it was; and a request with a reassignment from rep 101 to rep 201 is
  answered \<open>success = false\<close>.
\<close>

theorem batchUpdate_all_or_nothing:
  "(success (fst (batchUpdate request this)) \<longrightarrow>
      get_assigns (snd (batchUpdate request this)) = []
      \<and> get_reassigns (snd (batchUpdate request this)) = [])
   \<and> (\<not> success (fst (batchUpdate request this)) \<longrightarrow>
      snd (batchUpdate request this) = this)
   \<and> ((\<exists>r \<in> set (reassigns req).
          ReassignRequest.fromRepId r = Num 101 \<and> ReassignRequest.toRepId r = Num 201) \<longrightarrow>
      \<not> success (fst (batchUpdate (Some req) this)))"
  by (auto simp: batchUpdate_def get_assigns_def get_reassigns_def hasInvalidReassign_def
      list_ex_iff split: option.splits)

text \<open>
  The scenarios: the one-ZIP assignment is confirmed and the store is empty afterwards;
  the batch with the reassignment from 101 to 201 is rejected and the store keeps both
  staged operations.
\<close>

theorem batchUpdate_all_or_nothing_witness:
  "success (fst (batchUpdate (Some \<lparr>assigns = [assign80010], reassigns = []\<rparr>)
                   \<lparr>p_assigns = [assign80010], p_reassigns = []\<rparr>))
   \<and> get_assigns (snd (batchUpdate (Some \<lparr>assigns = [assign80010], reassigns = []\<rparr>)
                          \<lparr>p_assigns = [assign80010], p_reassigns = []\<rparr>)) = []
   \<and> (\<exists>r \<in> set (reassigns \<lparr>assigns = [assign80010], reassigns = [reassign101to201]\<rparr>).
          ReassignRequest.fromRepId r = Num 101 \<and> ReassignRequest.toRepId r = Num 201)
   \<and> \<not> success (fst (batchUpdate
                         (Some \<lparr>assigns = [assign80010], reassigns = [reassign101to201]\<rparr>)
                         \<lparr>p_assigns = [assign80010], p_reassigns = [reassign101to201]\<rparr>))
   \<and> snd (batchUpdate (Some \<lparr>assigns = [assign80010], reassigns = [reassign101to201]\<rparr>)
            \<lparr>p_assigns = [assign80010], p_reassigns = [reassign101to201]\<rparr>)
       = \<lparr>p_assigns = [assign80010], p_reassigns = [reassign101to201]\<rparr>"
proof -
  have ok: "success (fst (batchUpdate (Some \<lparr>assigns = [assign80010], reassigns = []\<rparr>)
                            \<lparr>p_assigns = [assign80010], p_reassigns = []\<rparr>))"
    by (simp add: batchUpdate_def hasInvalidReassign_def)
  have bad: "\<exists>r \<in> set (reassigns \<lparr>assigns = [assign80010], reassigns = [reassign101to201]\<rparr>).
          ReassignRequest.fromRepId r = Num 101 \<and> ReassignRequest.toRepId r = Num 201"
    by (simp add: reassign101to201_def)
  from ok bad show ?thesis
    using batchUpdate_all_or_nothing
            [of "Some \<lparr>assigns = [assign80010], reassigns = []\<rparr>"
                "\<lparr>p_assigns = [assign80010], p_reassigns = []\<rparr>"]
          batchUpdate_all_or_nothing
            [of "Some \<lparr>assigns = [assign80010], reassigns = [reassign101to201]\<rparr>"
                "\<lparr>p_assigns = [assign80010], p_reassigns = [reassign101to201]\<rparr>"
                "\<lparr>assigns = [assign80010], reassigns = [reassign101to201]\<rparr>"]
    by blast
qed

text \<open>
  The pages confirm the staged set itself: a rejected batch leaves the page as it was, an
  accepted one empties the store and the preview, and the form's reset clears the option
  lists that depend on it.
\<close>

lemma Assign_handleConfirmSubmit_all_or_nothing:
  "Assign_handleConfirmSubmit page =
     (if hasInvalidReassign (p_reassigns (AssignPage.service page))
      then (ShowError ''Failed to apply assignments'', page)
      else (ShowSuccess ''Assignments applied successfully'',
            page\<lparr>AssignPage.service := newAssignmentService, assignments := [],
                 salesReps := []\<rparr>))"
  by (cases "AssignPage.service page")
     (simp add: Assign_handleConfirmSubmit_def batchUpdate_def get_assigns_def
       get_reassigns_def newAssignmentService_def)

lemma Reassign_handleConfirmSubmit_all_or_nothing:
  "Reassign_handleConfirmSubmit page =
     (if hasInvalidReassign (p_reassigns (ReassignPage.service page))
      then (ShowError ''Failed to apply reassignments'', page)
      else (ShowSuccess ''Reassignments applied successfully'',
            page\<lparr>ReassignPage.service := newAssignmentService, reassignments := [],
                 fromSalesReps := [], toSalesReps := [], currentTerritories := []\<rparr>))"
  by (cases "ReassignPage.service page")
     (simp add: Reassign_handleConfirmSubmit_def batchUpdate_def get_assigns_def
       get_reassigns_def newAssignmentService_def)

text \<open>
  Claim C5. Confirming an empty staging set always succeeds and leaves the staging store
  empty, whatever the store held; confirming the empty set again changes nothing, and on
  an empty store the confirmation changes nothing at all.
\<close>

theorem confirm_empty_idempotent:
  "batchUpdate (Some \<lparr>assigns = [], reassigns = []\<rparr>) this
     = (\<lparr>success = True\<rparr>, this\<lparr>p_assigns := [], p_reassigns := []\<rparr>)
   \<and> get_assigns (snd (batchUpdate (Some \<lparr>assigns = [], reassigns = []\<rparr>) this)) = []
   \<and> get_reassigns (snd (batchUpdate (Some \<lparr>assigns = [], reassigns = []\<rparr>) this)) = []
   \<and> batchUpdate (Some \<lparr>assigns = [], reassigns = []\<rparr>)
        (snd (batchUpdate (Some \<lparr>assigns = [], reassigns = []\<rparr>) this))
      = batchUpdate (Some \<lparr>assigns = [], reassigns = []\<rparr>) this
   \<and> batchUpdate (Some \<lparr>assigns = [], reassigns = []\<rparr>) newAssignmentService
      = (\<lparr>success = True\<rparr>, newAssignmentService)"
  by (simp add: batchUpdate_def get_assigns_def get_reassigns_def hasInvalidReassign_def
      newAssignmentService_def)

text \<open>
  Claim C6. \<open>removeAssign\<close> and \<open>removeReassign\<close> with an index out of bounds (negative,
  or at least the length of the sequence) return the store as it was, and no error
  arises; with an index in bounds they remove exactly the element at that position and
  keep everything else, the other sequence included.
\<close>

theorem remove_by_index:
  "((index < 0 \<or> index \<ge> int (length (p_assigns this))) \<longrightarrow> removeAssign index this = this)
   \<and> ((index < 0 \<or> index \<ge> int (length (p_reassigns this))) \<longrightarrow>
        removeReassign index this = this)
   \<and> (0 \<le> index \<and> index < int (length (p_assigns this)) \<longrightarrow>
        removeAssign index this
          = this\<lparr>p_assigns := take (nat index) (p_assigns this)
                                @ drop (Suc (nat index)) (p_assigns this)\<rparr>)
   \<and> (0 \<le> index \<and> index < int (length (p_reassigns this)) \<longrightarrow>
        removeReassign index this
          = this\<lparr>p_reassigns := take (nat index) (p_reassigns this)
                                  @ drop (Suc (nat index)) (p_reassigns this)\<rparr>)"
  by (auto simp: removeAssign_def removeReassign_def splice_one)

text \<open>
  On a store with one assignment and two reassignments: index 1 and index \<open>-1\<close> are out
  of bounds for the assignments and change nothing; index 0 removes the assignment;
  index 1 removes the second reassignment and index 2 is out of bounds there.
\<close>

theorem remove_by_index_witness:
  "removeAssign 1 \<lparr>p_assigns = [assign80010],
                   p_reassigns = [reassign101to201, reassign101to102]\<rparr>
     = \<lparr>p_assigns = [assign80010], p_reassigns = [reassign101to201, reassign101to102]\<rparr>
   \<and> removeAssign (- 1) \<lparr>p_assigns = [assign80010],
                         p_reassigns = [reassign101to201, reassign101to102]\<rparr>
     = \<lparr>p_assigns = [assign80010], p_reassigns = [reassign101to201, reassign101to102]\<rparr>
   \<and> removeReassign 2 \<lparr>p_assigns = [assign80010],
                       p_reassigns = [reassign101to201, reassign101to102]\<rparr>
     = \<lparr>p_assigns = [assign80010], p_reassigns = [reassign101to201, reassign101to102]\<rparr>
   \<and> removeAssign 0 \<lparr>p_assigns = [assign80010],
                     p_reassigns = [reassign101to201, reassign101to102]\<rparr>
     = \<lparr>p_assigns = [], p_reassigns = [reassign101to201, reassign101to102]\<rparr>
   \<and> removeReassign 1 \<lparr>p_assigns = [assign80010],
                       p_reassigns = [reassign101to201, reassign101to102]\<rparr>
     = \<lparr>p_assigns = [assign80010], p_reassigns = [reassign101to201]\<rparr>"
  using remove_by_index
          [of 1 "\<lparr>p_assigns = [assign80010],
                  p_reassigns = [reassign101to201, reassign101to102]\<rparr>"]
        remove_by_index
          [of "- 1" "\<lparr>p_assigns = [assign80010],
                      p_reassigns = [reassign101to201, reassign101to102]\<rparr>"]
        remove_by_index
          [of 2 "\<lparr>p_assigns = [assign80010],
                  p_reassigns = [reassign101to201, reassign101to102]\<rparr>"]
        remove_by_index
          [of 0 "\<lparr>p_assigns = [assign80010],
                  p_reassigns = [reassign101to201, reassign101to102]\<rparr>"]
  by simp

section \<open>Validation responses\<close>

text \<open>
  Claim C10. In every validation response, \<open>valid\<close> is true exactly when \<open>errors\<close> is
  empty: for the service's \<open>validate\<close> on any argument (its \<open>catch\<close> answer included),
  and for the server route, which answers every request that has a body.
\<close>

theorem validate_valid_iff_no_errors:
  "(valid (validate request) \<longleftrightarrow> errors (validate request) = [])
   \<and> (\<exists>r. routeValidate (Some body) = Inr r \<and> (valid r \<longleftrightarrow> errors r = []))"
  by (simp add: validate_def routeValidate_def split: option.splits)

section \<open>Range expansion: counties\<close>

lemma countyRows_map: "countyRows row (Some cs) prev = prev @ map row cs"
proof -
  have "foldl (\<lambda>acc county. acc @ [row county]) prev cs = prev @ map row cs"
    by (induction cs arbitrary: prev) simp_all
  then show ?thesis by (simp add: countyRows_def)
qed

lemma validate_county_mode:
  "AssignmentFormValues.mode data = County \<Longrightarrow> valid (validate (Some (assignRequestOf data)))"
  by (simp add: validate_def assignRequestOf_def)

lemma Assign_onSubmit_county:
  assumes "AssignmentFormValues.mode data = County"
  shows "Assign_onSubmit data page =
     (ShowSuccess ''Assignment added successfully'',
      page\<lparr>AssignPage.service := addAssign (assignRequestOf data) (AssignPage.service page),
           assignments :=
             countyRows
               (assignmentRow data page
                  (orElse (map_option label
                     (findFirst (salesReps page)
                        (\<lambda>r. value r = AssignmentFormValues.repId data))) ''Unknown''))
               (AssignmentFormValues.counties data) (assignments page)\<rparr>)"
  using assms validate_county_mode [OF assms] by (simp add: Assign_onSubmit_def Let_def)

lemma Reassign_onSubmit_county:
  assumes "ReassignmentFormValues.mode data = County"
  shows "Reassign_onSubmit data page =
     (ShowSuccess ''Reassignment added successfully'',
      page\<lparr>ReassignPage.service :=
             addReassign (reassignRequestOf data) (ReassignPage.service page),
           reassignments :=
             countyRows
               (reassignmentRow data page
                  (orElse (map_option label
                     (findFirst (fromSalesReps page)
                        (\<lambda>r. value r = ReassignmentFormValues.fromRepId data))) ''Unknown'')
                  (orElse (map_option label
                     (findFirst (toSalesReps page)
                        (\<lambda>r. value r = ReassignmentFormValues.toRepId data))) ''Unknown''))
               (ReassignmentFormValues.counties data) (reassignments page)\<rparr>)"
  using assms by (simp add: Reassign_onSubmit_def Let_def)

text \<open>
  Claim C8. For a county selector the handlers append one row per county, in the order
  of the county list (nothing is sorted), so that the number of rows is the number of
  counties: for the loop itself, and for \<open>onSubmit\<close> of the Assign and of the Reassign
  page in county mode.
\<close>

theorem county_expansion:
  "countyRows row (Some cs) prev = prev @ map row cs
   \<and> length (countyRows row (Some cs) []) = length cs
   \<and> (AssignmentFormValues.mode data = County
        \<and> AssignmentFormValues.counties data = Some cs \<longrightarrow>
      map AssignmentDisplay.location (assignments (snd (Assign_onSubmit data page)))
        = map AssignmentDisplay.location (assignments page) @ cs)
   \<and> (ReassignmentFormValues.mode rdata = County
        \<and> ReassignmentFormValues.counties rdata = Some cs \<longrightarrow>
      map ReassignmentDisplay.location (reassignments (snd (Reassign_onSubmit rdata rpage)))
        = map ReassignmentDisplay.location (reassignments rpage) @ cs)"
proof (intro conjI impI)
  show "countyRows row (Some cs) prev = prev @ map row cs" by (rule countyRows_map)
  show "length (countyRows row (Some cs) []) = length cs" by (simp add: countyRows_map)
next
  assume "AssignmentFormValues.mode data = County
        \<and> AssignmentFormValues.counties data = Some cs"
  then show "map AssignmentDisplay.location (assignments (snd (Assign_onSubmit data page)))
        = map AssignmentDisplay.location (assignments page) @ cs"
    by (simp add: Assign_onSubmit_county countyRows_map assignmentRow_def comp_def)
next
  assume "ReassignmentFormValues.mode rdata = County
        \<and> ReassignmentFormValues.counties rdata = Some cs"
  then show "map ReassignmentDisplay.location (reassignments (snd (Reassign_onSubmit rdata rpage)))
        = map ReassignmentDisplay.location (reassignments rpage) @ cs"
    by (simp add: Reassign_onSubmit_county countyRows_map reassignmentRow_def comp_def)
qed

text \<open>Boulder selected before Adams gives the rows Boulder, Adams on both pages.\<close>

theorem county_expansion_witness:
  "AssignmentFormValues.mode (assignForm (Some [''Boulder'', ''Adams'']) [] []) = County
   \<and> AssignmentFormValues.counties (assignForm (Some [''Boulder'', ''Adams'']) [] [])
       = Some [''Boulder'', ''Adams'']
   \<and> map AssignmentDisplay.location
        (assignments (snd (Assign_onSubmit (assignForm (Some [''Boulder'', ''Adams'']) [] [])
                             assignPage0)))
       = [''Boulder'', ''Adams'']
   \<and> ReassignmentFormValues.mode (reassignForm (Some [''Boulder'', ''Adams'']) [] []) = County
   \<and> ReassignmentFormValues.counties (reassignForm (Some [''Boulder'', ''Adams'']) [] [])
       = Some [''Boulder'', ''Adams'']
   \<and> map ReassignmentDisplay.location
        (reassignments
           (snd (Reassign_onSubmit (reassignForm (Some [''Boulder'', ''Adams'']) [] [])
                   reassignPage0)))
       = [''Boulder'', ''Adams'']"
proof -
  have a: "AssignmentFormValues.mode (assignForm (Some [''Boulder'', ''Adams'']) [] []) = County
   \<and> AssignmentFormValues.counties (assignForm (Some [''Boulder'', ''Adams'']) [] [])
       = Some [''Boulder'', ''Adams'']"
    by (simp add: assignForm_def)
  have r: "ReassignmentFormValues.mode (reassignForm (Some [''Boulder'', ''Adams'']) [] [])
       = County
   \<and> ReassignmentFormValues.counties (reassignForm (Some [''Boulder'', ''Adams'']) [] [])
       = Some [''Boulder'', ''Adams'']"
    by (simp add: reassignForm_def)
  have e1: "assignments assignPage0 = []" by (simp add: assignPage0_def)
  have e2: "reassignments reassignPage0 = []" by (simp add: reassignPage0_def)
  from a r show ?thesis
    using county_expansion
            [of "\<lambda>loc. loc" "[''Boulder'', ''Adams'']" "[]"
                "assignForm (Some [''Boulder'', ''Adams'']) [] []" assignPage0
                "reassignForm (Some [''Boulder'', ''Adams'']) [] []" reassignPage0]
    by (simp add: e1 e2)
qed

section \<open>Removing a row of the preview\<close>

lemma findIndexFrom_none:
  "\<not> list_ex p xs \<Longrightarrow> findIndexFrom p xs i = - 1"
  by (induction xs arbitrary: i) simp_all

lemma findIndexFrom_append:
  "\<not> list_ex p xs \<Longrightarrow> p y \<Longrightarrow> findIndexFrom p (xs @ y # ys) i = i + int (length xs)"
  by (induction xs arbitrary: i) simp_all

text \<open>
  What \<open>handleRemoveAssignment\<close> does in general: the first staged operation that
  matches the row is removed, whole; without a match the store is unchanged.
\<close>
lemma handleRemoveAssignment_first_match:
  "\<not> list_ex (assignMatches item) xs \<Longrightarrow> assignMatches item y \<Longrightarrow>
   handleRemoveAssignment item \<lparr>p_assigns = xs @ y # ys, p_reassigns = rs\<rparr>
     = \<lparr>p_assigns = xs @ ys, p_reassigns = rs\<rparr>"
  by (simp add: handleRemoveAssignment_def get_assigns_def findIndex_def findIndexFrom_append
      removeAssign_def splice_one)

lemma handleRemoveAssignment_no_match:
  "\<not> list_ex (assignMatches item) (p_assigns this) \<Longrightarrow>
   handleRemoveAssignment item this = this"
  by (simp add: handleRemoveAssignment_def get_assigns_def findIndex_def findIndexFrom_none)

lemma handleRemoveReassignment_first_match:
  "\<not> list_ex (reassignMatches item) xs \<Longrightarrow> reassignMatches item y \<Longrightarrow>
   handleRemoveReassignment item \<lparr>p_assigns = as, p_reassigns = xs @ y # ys\<rparr>
     = \<lparr>p_assigns = as, p_reassigns = xs @ ys\<rparr>"
  by (simp add: handleRemoveReassignment_def get_reassigns_def findIndex_def
      findIndexFrom_append removeReassign_def splice_one)

lemma strictEq_refl: "x \<noteq> NaN \<Longrightarrow> strictEq x x"
  by (cases x) simp_all

lemma Assign_onSubmit_success:
  assumes "Assign_onSubmit data page = (ShowSuccess msg, page')"
  shows "AssignPage.service page' = addAssign (assignRequestOf data) (AssignPage.service page)"
    and "\<exists>locs. assignments page'
           = assignments page
             @ map (assignmentRow data page
                      (orElse (map_option label
                         (findFirst (salesReps page)
                            (\<lambda>r. value r = AssignmentFormValues.repId data))) ''Unknown''))
                 locs
         \<and> (AssignmentFormValues.mode data = County \<longrightarrow>
               AssignmentFormValues.counties data = Some locs \<or>
               (AssignmentFormValues.counties data = None \<and> locs = []))"
proof -
  from assms have v: "valid (validate (Some (assignRequestOf data)))"
    by (auto simp: Assign_onSubmit_def Let_def split: if_splits)
  from assms v show "AssignPage.service page'
      = addAssign (assignRequestOf data) (AssignPage.service page)"
    by (auto simp: Assign_onSubmit_def Let_def)
  let ?row = "assignmentRow data page
                      (orElse (map_option label
                         (findFirst (salesReps page)
                            (\<lambda>r. value r = AssignmentFormValues.repId data))) ''Unknown'')"
  show "\<exists>locs. assignments page' = assignments page @ map ?row locs
         \<and> (AssignmentFormValues.mode data = County \<longrightarrow>
               AssignmentFormValues.counties data = Some locs \<or>
               (AssignmentFormValues.counties data = None \<and> locs = []))"
  proof (cases "AssignmentFormValues.mode data = County")
    case True
    show ?thesis
    proof (cases "AssignmentFormValues.counties data")
      case None
      with True assms v have "assignments page' = assignments page @ map ?row []"
        by (auto simp: Assign_onSubmit_def Let_def countyRows_def)
      with None show ?thesis by blast
    next
      case (Some cs)
      with True assms v have "assignments page' = assignments page @ map ?row cs"
        by (auto simp: Assign_onSubmit_def Let_def countyRows_map)
      with Some show ?thesis by blast
    qed
  next
    case False
    with assms v have "assignments page' = assignments page
        @ map ?row (zipRows (\<lambda>loc. loc)
            (parseInt (orElse (AssignmentFormValues.zipFrom data) ''0''))
            (parseInt (orElse (AssignmentFormValues.zipTo data) ''0'')) [])"
      using zipRows_tokens [of ?row] by (auto simp: Assign_onSubmit_def Let_def)
    with False show ?thesis by blast
  qed
qed

subsection \<open>The example submits, evaluated\<close>

lemmas parseInt_eval =
  parseInt_def stripSign_def stripRadixPrefix_def isWhiteSpace_def digitValue_def
  digitTable_def radixValue_def

lemma parseInt_1: "parseInt ''1'' = Num 1"
  by (simp add: parseInt_eval)

lemma parseInt_101: "parseInt ''101'' = Num 101"
  by (simp add: parseInt_eval)

lemma parseInt_102: "parseInt ''102'' = Num 102"
  by (simp add: parseInt_eval)

lemma parseInt_80010: "parseInt ''80010'' = Num 80010"
  by (simp add: parseInt_eval)

lemma parseInt_80012: "parseInt ''80012'' = Num 80012"
  by (simp add: parseInt_eval)

lemma zipRows_80010_80012:
  "zipRows row (Num 80010) (Num 80012) prev
     = prev @ [row ''80010'', row ''80011'', row ''80012'']"
  by (simp add: zipRows_def zipLoop_map padStart_def toString.simps natDigits.simps
        digitChar_def)

lemma Assign_onSubmit_zip:
  assumes "AssignmentFormValues.mode data = Zip"
    and "AssignmentFormValues.zipFrom data \<noteq> Some ''80019''"
    and "AssignmentFormValues.zipTo data \<noteq> Some ''80019''"
  shows "Assign_onSubmit data page =
     (ShowSuccess ''Assignment added successfully'',
      page\<lparr>AssignPage.service := addAssign (assignRequestOf data) (AssignPage.service page),
           assignments :=
             zipRows
               (assignmentRow data page
                  (orElse (map_option label
                     (findFirst (salesReps page)
                        (\<lambda>r. value r = AssignmentFormValues.repId data))) ''Unknown''))
               (parseInt (orElse (AssignmentFormValues.zipFrom data) ''0''))
               (parseInt (orElse (AssignmentFormValues.zipTo data) ''0''))
               (assignments page)\<rparr>)"
  using assms by (simp add: Assign_onSubmit_def Let_def validate_def assignRequestOf_def)

lemma submit_counties:
  "cs \<noteq> Some [] \<Longrightarrow>
   Assign_onSubmit (assignForm cs [] []) page
     = (ShowSuccess ''Assignment added successfully'',
        page\<lparr>AssignPage.service :=
               addAssign (assignRequestOf (assignForm cs [] [])) (AssignPage.service page),
             assignments :=
               countyRows
                 (assignmentRow (assignForm cs [] []) page
                    (orElse (map_option label
                       (findFirst (salesReps page) (\<lambda>r. value r = ''101''))) ''Unknown''))
                 cs (assignments page)\<rparr>)"
  using Assign_onSubmit_county [of "assignForm cs [] []" page]
  by (simp add: assignForm_def)

lemma submit_80010_80012:
  "Assign_onSubmit (assignForm (Some []) ''80010'' ''80012'') page
     = (ShowSuccess ''Assignment added successfully'',
        page\<lparr>AssignPage.service :=
               addAssign (assignRequestOf (assignForm (Some []) ''80010'' ''80012''))
                 (AssignPage.service page),
             assignments :=
               assignments page
               @ map (assignmentRow (assignForm (Some []) ''80010'' ''80012'') page
                        (orElse (map_option label
                           (findFirst (salesReps page) (\<lambda>r. value r = ''101''))) ''Unknown''))
                   [''80010'', ''80011'', ''80012'']\<rparr>)"
  using Assign_onSubmit_zip [of "assignForm (Some []) ''80010'' ''80012''" page]
  by (simp add: assignForm_def orElse_def parseInt_80010 parseInt_80012 zipRows_80010_80012)

lemma assignRequestOf_form_counties:
  "cs \<noteq> Some [] \<Longrightarrow>
   assignRequestOf (assignForm cs zf zt)
     = \<lparr>ValidateAssignmentRequest.typeId = Num 1, ValidateAssignmentRequest.repId = Num 101,
        ValidateAssignmentRequest.counties = cs, ValidateAssignmentRequest.zipFrom = None,
        ValidateAssignmentRequest.zipTo = None\<rparr>"
  by (simp add: assignRequestOf_def assignForm_def parseInt_1 parseInt_101)

lemma assignRequestOf_form_zip:
  "assignRequestOf (assignForm (Some []) zf zt)
     = \<lparr>ValidateAssignmentRequest.typeId = Num 1, ValidateAssignmentRequest.repId = Num 101,
        ValidateAssignmentRequest.counties = None, ValidateAssignmentRequest.zipFrom = Some zf,
        ValidateAssignmentRequest.zipTo = Some zt\<rparr>"
  by (simp add: assignRequestOf_def assignForm_def parseInt_1 parseInt_101)

lemma assignmentRow_form:
  "assignmentRow (assignForm cs zf zt) page rName loc
     = \<lparr>AssignmentDisplay.typeId = Num 1,
        typeName = orElse (AssignPage.selectedRepType page) [],
        AssignmentDisplay.repId = Num 101, repName = rName, location = loc\<rparr>"
  by (simp add: assignmentRow_def assignForm_def parseInt_1 parseInt_101)

subsection \<open>Claim C3\<close>

text \<open>
  Claim C3 as the spec states it: after \<open>addAssign(op)\<close>, removing any row derived from
  \<open>op\<close> leaves \<open>assigns\<close> without \<open>op\<close>. It fails when an operation staged earlier
  matches the row, since the first match is the one removed. Here counties Adams and
  Boulder are staged for rep 101, then county Adams alone for the same rep; removing the
  row Adams of the second operation removes the first operation, and the second one is
  what remains staged.
\<close>

theorem remove_row_counterexample:
  "AssignmentDisplay.location
     (last (assignments
        (snd (Assign_onSubmit (assignForm (Some [''Adams'']) [] [])
           (snd (Assign_onSubmit (assignForm (Some [''Adams'', ''Boulder'']) [] [])
                   assignPage0)))))) = ''Adams''
   \<and> get_assigns
        (handleRemoveAssignment
           (last (assignments
              (snd (Assign_onSubmit (assignForm (Some [''Adams'']) [] [])
                 (snd (Assign_onSubmit (assignForm (Some [''Adams'', ''Boulder'']) [] [])
                         assignPage0))))))
           (AssignPage.service
              (snd (Assign_onSubmit (assignForm (Some [''Adams'']) [] [])
                 (snd (Assign_onSubmit (assignForm (Some [''Adams'', ''Boulder'']) [] [])
                         assignPage0))))))
       = [assignRequestOf (assignForm (Some [''Adams'']) [] [])]
   \<and> assignRequestOf (assignForm (Some [''Adams'']) [] [])
       \<in> set (get_assigns
        (handleRemoveAssignment
           (last (assignments
              (snd (Assign_onSubmit (assignForm (Some [''Adams'']) [] [])
                 (snd (Assign_onSubmit (assignForm (Some [''Adams'', ''Boulder'']) [] [])
                         assignPage0))))))
           (AssignPage.service
              (snd (Assign_onSubmit (assignForm (Some [''Adams'']) [] [])
                 (snd (Assign_onSubmit (assignForm (Some [''Adams'', ''Boulder'']) [] [])
                         assignPage0)))))))"
  by (simp add: submit_counties countyRows_map assignRequestOf_form_counties
      assignmentRow_form assignPage0_def newAssignmentService_def addAssign_def
      handleRemoveAssignment_def get_assigns_def findIndex_def assignMatches_def
      includesOpt_def removeAssign_def splice_def)

text \<open>
  Claim C3, amended. When \<open>onSubmit\<close> of the Assign page has staged an operation whose
  \<open>typeId\<close> and \<open>repId\<close> are numbers, and no operation staged before it matches the
  row, then removing a row of that operation whose location is one of its counties, or
  its \<open>zipFrom\<close>, or its \<open>zipTo\<close>, removes the operation as a whole: the staging store
  is again what it was before the submit.
\<close>

theorem remove_row_removes_operation:
  assumes submit: "Assign_onSubmit data page = (ShowSuccess msg, page')"
    and numeric: "parseInt (AssignmentFormValues.typeId data) \<noteq> NaN"
                 "parseInt (AssignmentFormValues.repId data) \<noteq> NaN"
    and row: "item \<in> set (drop (length (assignments page)) (assignments page'))"
    and loc: "AssignmentFormValues.mode data = County
              \<or> AssignmentFormValues.zipFrom data = Some (AssignmentDisplay.location item)
              \<or> AssignmentFormValues.zipTo data = Some (AssignmentDisplay.location item)"
    and first: "\<not> list_ex (assignMatches item) (get_assigns (AssignPage.service page))"
  shows "handleRemoveAssignment item (AssignPage.service page') = AssignPage.service page"
proof -
  let ?op = "assignRequestOf data"
  from Assign_onSubmit_success [OF submit] obtain locs rName where
    svc: "AssignPage.service page' = addAssign ?op (AssignPage.service page)"
    and rows: "assignments page' = assignments page @ map (assignmentRow data page rName) locs"
    and cty: "AssignmentFormValues.mode data = County \<longrightarrow>
               AssignmentFormValues.counties data = Some locs \<or>
               (AssignmentFormValues.counties data = None \<and> locs = [])"
    by blast
  from row rows obtain l where l: "l \<in> set locs" "item = assignmentRow data page rName l"
    by auto
  have ids: "strictEq (ValidateAssignmentRequest.typeId ?op) (AssignmentDisplay.typeId item)"
            "strictEq (ValidateAssignmentRequest.repId ?op) (AssignmentDisplay.repId item)"
    using numeric l(2) by (simp_all add: assignRequestOf_def assignmentRow_def strictEq_refl)
  have "includesOpt (ValidateAssignmentRequest.counties ?op) (AssignmentDisplay.location item)
        \<or> ValidateAssignmentRequest.zipFrom ?op = Some (AssignmentDisplay.location item)
        \<or> ValidateAssignmentRequest.zipTo ?op = Some (AssignmentDisplay.location item)"
  proof (cases "AssignmentFormValues.mode data = County")
    case True
    with cty l have "AssignmentFormValues.counties data = Some locs" by auto
    with True l show ?thesis
      by (simp add: assignRequestOf_def includesOpt_def assignmentRow_def)
  next
    case False
    with loc show ?thesis by (simp add: assignRequestOf_def)
  qed
  with ids have m: "assignMatches item ?op" by (simp add: assignMatches_def)
  obtain xs rs where s: "AssignPage.service page = \<lparr>p_assigns = xs, p_reassigns = rs\<rparr>"
    by (cases "AssignPage.service page") auto
  with first have nf: "\<not> list_ex (assignMatches item) xs" by (simp add: get_assigns_def)
  have "AssignPage.service page' = \<lparr>p_assigns = xs @ ?op # [], p_reassigns = rs\<rparr>"
    using svc s by (simp add: addAssign_def)
  then show ?thesis
    using handleRemoveAssignment_first_match [OF nf m, of "[]" rs] s by simp
qed

text \<open>
  On the empty page: after staging counties Boulder and Adams, removing the row Adams
  empties the store; after staging the range 80010 to 80012, removing the row 80010
  empties the store.
\<close>

theorem remove_row_removes_operation_witness:
  "handleRemoveAssignment
     (last (assignments
        (snd (Assign_onSubmit (assignForm (Some [''Boulder'', ''Adams'']) [] []) assignPage0))))
     (AssignPage.service
        (snd (Assign_onSubmit (assignForm (Some [''Boulder'', ''Adams'']) [] []) assignPage0)))
     = newAssignmentService
   \<and> handleRemoveAssignment
       (hd (assignments
          (snd (Assign_onSubmit (assignForm (Some []) ''80010'' ''80012'') assignPage0))))
       (AssignPage.service
          (snd (Assign_onSubmit (assignForm (Some []) ''80010'' ''80012'') assignPage0)))
     = newAssignmentService"
proof -
  let ?d1 = "assignForm (Some [''Boulder'', ''Adams'']) [] []"
  let ?d2 = "assignForm (Some []) ''80010'' ''80012''"
  let ?m = "''Assignment added successfully''"
  have n: "parseInt (AssignmentFormValues.typeId ?d1) \<noteq> NaN"
          "parseInt (AssignmentFormValues.repId ?d1) \<noteq> NaN"
          "parseInt (AssignmentFormValues.typeId ?d2) \<noteq> NaN"
          "parseInt (AssignmentFormValues.repId ?d2) \<noteq> NaN"
    by (simp_all add: assignForm_def parseInt_1 parseInt_101)
  have e: "\<not> list_ex (assignMatches item) (get_assigns (AssignPage.service assignPage0))"
    for item
    by (simp add: assignPage0_def newAssignmentService_def get_assigns_def)
  have s0: "AssignPage.service assignPage0 = newAssignmentService"
    by (simp add: assignPage0_def)
  have s1: "Assign_onSubmit ?d1 assignPage0 = (ShowSuccess ?m, snd (Assign_onSubmit ?d1 assignPage0))"
    by (simp add: submit_counties)
  have r1: "last (assignments (snd (Assign_onSubmit ?d1 assignPage0)))
        \<in> set (drop (length (assignments assignPage0))
                 (assignments (snd (Assign_onSubmit ?d1 assignPage0))))"
    by (simp add: submit_counties countyRows_map assignPage0_def)
  have m1: "AssignmentFormValues.mode ?d1 = County" by (simp add: assignForm_def)
  have s2: "Assign_onSubmit ?d2 assignPage0 = (ShowSuccess ?m, snd (Assign_onSubmit ?d2 assignPage0))"
    by (simp add: submit_80010_80012)
  have r2: "hd (assignments (snd (Assign_onSubmit ?d2 assignPage0)))
        \<in> set (drop (length (assignments assignPage0))
                 (assignments (snd (Assign_onSubmit ?d2 assignPage0))))"
    by (simp add: submit_80010_80012 assignPage0_def)
  have a0: "assignments assignPage0 = []" by (simp add: assignPage0_def)
  have z2: "AssignmentFormValues.zipFrom ?d2 = Some ''80010''" by (simp add: assignForm_def)
  have m2: "AssignmentFormValues.zipFrom ?d2
          = Some (AssignmentDisplay.location
                    (hd (assignments (snd (Assign_onSubmit ?d2 assignPage0)))))"
    unfolding z2 by (simp add: submit_80010_80012 a0 assignmentRow_form)
  show ?thesis
    using remove_row_removes_operation [OF s1 n(1) n(2) r1 disjI1 [OF m1] e]
          remove_row_removes_operation [OF s2 n(3) n(4) r2 disjI2 [OF disjI1 [OF m2]] e]
    by (simp add: s0)
qed

text \<open>
  A row for a ZIP code strictly inside the range matches neither bound: removing the row
  80011 of the range 80010 to 80012 leaves the staged operation where it is.
\<close>
lemma inner_zip_row_matches_nothing:
  "AssignmentDisplay.location
     (assignments (snd (Assign_onSubmit (assignForm (Some []) ''80010'' ''80012'')
                          assignPage0)) ! 1) = ''80011''
   \<and> get_assigns
        (handleRemoveAssignment
           (assignments (snd (Assign_onSubmit (assignForm (Some []) ''80010'' ''80012'')
                                assignPage0)) ! 1)
           (AssignPage.service
              (snd (Assign_onSubmit (assignForm (Some []) ''80010'' ''80012'') assignPage0))))
       = [assignRequestOf (assignForm (Some []) ''80010'' ''80012'')]"
  by (simp add: submit_80010_80012 assignRequestOf_form_zip
      assignmentRow_form assignPage0_def newAssignmentService_def addAssign_def
      handleRemoveAssignment_def get_assigns_def findIndex_def assignMatches_def
      includesOpt_def)

section \<open>The option list for the target rep\<close>

lemma getSalesReps_ids: "rep \<in> set (getSalesReps t) \<Longrightarrow> \<exists>n. SalesRepId rep = Num n"
  by (auto simp: getSalesReps_def split: if_splits)

lemma loadSalesReps_value:
  assumes "v \<in> value ` set (loadSalesReps t)"
  shows "\<exists>n. v = toString (Num n)"
proof -
  from assms obtain rep where
    "rep \<in> set (getSalesReps (parseInt t))" "v = toString (SalesRepId rep)"
    by (auto simp: loadSalesReps_def repOption_def split: if_splits)
  with getSalesReps_ids show ?thesis by metis
qed

lemma loadToSalesReps_value:
  assumes "v \<in> value ` set (loadToSalesReps t f)"
  shows "(\<exists>n. v = toString (Num n)) \<and> v \<noteq> f"
proof -
  from assms obtain rep where
    "rep \<in> set (getSalesReps (parseInt t))" "v = toString (SalesRepId rep)" "v \<noteq> f"
    by (auto simp: loadToSalesReps_def repOption_def Let_def split: if_splits)
  with getSalesReps_ids show ?thesis by metis
qed

lemma Reassign_onSubmit_staged:
  "get_reassigns (ReassignPage.service (snd (Reassign_onSubmit data page)))
     = get_reassigns (ReassignPage.service page)
   \<or> get_reassigns (ReassignPage.service (snd (Reassign_onSubmit data page)))
     = get_reassigns (ReassignPage.service page) @ [reassignRequestOf data]"
  by (simp add: Reassign_onSubmit_def Let_def get_reassigns_def addReassign_def
      split: prod.splits)

text \<open>
  Claim C9. Whatever the rep type and the selected source rep, no option offered for the
  target rep has the source rep's value: the list is the reps of the type with the source
  rep filtered out. So when the form's source rep is one of the options offered for it
  and its target rep is one of the options offered for that source rep, the operation
  that \<open>onSubmit\<close> builds has \<open>fromRepId\<close> different from \<open>toRepId\<close>, and staging it
  keeps every staged reassignment that way.
\<close>

theorem to_options_exclude_from_rep:
  "(\<forall>opt \<in> set (loadToSalesReps watchTypeId watchFromRepId). value opt \<noteq> watchFromRepId)
   \<and> (ReassignmentFormValues.fromRepId data
         \<in> value ` set (loadSalesReps (ReassignmentFormValues.typeId data))
       \<and> ReassignmentFormValues.toRepId data
         \<in> value ` set (loadToSalesReps (ReassignmentFormValues.typeId data)
                           (ReassignmentFormValues.fromRepId data))
       \<longrightarrow> ReassignRequest.fromRepId (reassignRequestOf data)
             \<noteq> ReassignRequest.toRepId (reassignRequestOf data)
           \<and> \<not> strictEq (ReassignRequest.fromRepId (reassignRequestOf data))
                 (ReassignRequest.toRepId (reassignRequestOf data))
           \<and> ((\<forall>r \<in> set (get_reassigns (ReassignPage.service page)).
                   ReassignRequest.fromRepId r \<noteq> ReassignRequest.toRepId r)
                \<longrightarrow> (\<forall>r \<in> set (get_reassigns
                                  (ReassignPage.service (snd (Reassign_onSubmit data page)))).
                   ReassignRequest.fromRepId r \<noteq> ReassignRequest.toRepId r)))"
proof (intro conjI impI)
  show "\<forall>opt \<in> set (loadToSalesReps watchTypeId watchFromRepId). value opt \<noteq> watchFromRepId"
    using loadToSalesReps_value [of _ watchTypeId watchFromRepId] by blast
next
  assume h: "ReassignmentFormValues.fromRepId data
         \<in> value ` set (loadSalesReps (ReassignmentFormValues.typeId data))
       \<and> ReassignmentFormValues.toRepId data
         \<in> value ` set (loadToSalesReps (ReassignmentFormValues.typeId data)
                           (ReassignmentFormValues.fromRepId data))"
  then obtain a b where
    a: "ReassignmentFormValues.fromRepId data = toString (Num a)" and
    b: "ReassignmentFormValues.toRepId data = toString (Num b)" and
    ne: "ReassignmentFormValues.toRepId data \<noteq> ReassignmentFormValues.fromRepId data"
    using loadSalesReps_value loadToSalesReps_value by metis
  from a b ne have ab: "a \<noteq> b" by auto
  have f: "ReassignRequest.fromRepId (reassignRequestOf data) = Num a"
    by (simp add: reassignRequestOf_def a parseInt_toString)
  have t: "ReassignRequest.toRepId (reassignRequestOf data) = Num b"
    by (simp add: reassignRequestOf_def b parseInt_toString)
  show d: "ReassignRequest.fromRepId (reassignRequestOf data)
             \<noteq> ReassignRequest.toRepId (reassignRequestOf data)"
    using ab by (simp add: f t)
  show "\<not> strictEq (ReassignRequest.fromRepId (reassignRequestOf data))
                 (ReassignRequest.toRepId (reassignRequestOf data))"
    using ab by (simp add: f t)
  assume inv: "\<forall>r \<in> set (get_reassigns (ReassignPage.service page)).
                   ReassignRequest.fromRepId r \<noteq> ReassignRequest.toRepId r"
  show "\<forall>r \<in> set (get_reassigns (ReassignPage.service (snd (Reassign_onSubmit data page)))).
                   ReassignRequest.fromRepId r \<noteq> ReassignRequest.toRepId r"
    using Reassign_onSubmit_staged [of data page] inv d by auto
qed

lemma loadSalesReps_1:
  "loadSalesReps ''1''
     = [\<lparr>value = ''101'', label = ''0123 (C)''\<rparr>, \<lparr>value = ''102'', label = ''0347 (C)''\<rparr>]"
  by (simp add: loadSalesReps_def parseInt_1 getSalesReps_def repOption_def toString.simps natDigits.simps
      digitChar_def)

lemma loadToSalesReps_1_101:
  "loadToSalesReps ''1'' ''101'' = [\<lparr>value = ''102'', label = ''0347 (C)''\<rparr>]"
  by (simp add: loadToSalesReps_def parseInt_1 getSalesReps_def repOption_def toString.simps natDigits.simps
      digitChar_def)

text \<open>
  For rep type 1 and source rep 101 the only target offered is 102; the form with source
  101 and target 102 stages an operation with different reps.
\<close>

theorem to_options_exclude_from_rep_witness:
  "ReassignmentFormValues.fromRepId (reassignForm (Some [''Adams'']) [] [])
         \<in> value ` set (loadSalesReps
                           (ReassignmentFormValues.typeId (reassignForm (Some [''Adams'']) [] [])))
   \<and> ReassignmentFormValues.toRepId (reassignForm (Some [''Adams'']) [] [])
         \<in> value ` set (loadToSalesReps
                           (ReassignmentFormValues.typeId (reassignForm (Some [''Adams'']) [] []))
                           (ReassignmentFormValues.fromRepId
                              (reassignForm (Some [''Adams'']) [] [])))
   \<and> map value (loadToSalesReps ''1'' ''101'') = [''102'']
   \<and> ReassignRequest.fromRepId (reassignRequestOf (reassignForm (Some [''Adams'']) [] []))
         \<noteq> ReassignRequest.toRepId (reassignRequestOf (reassignForm (Some [''Adams'']) [] []))
   \<and> get_reassigns
        (ReassignPage.service
           (snd (Reassign_onSubmit (reassignForm (Some [''Adams'']) [] []) reassignPage0)))
       = [reassignRequestOf (reassignForm (Some [''Adams'']) [] [])]
   \<and> list_all (\<lambda>r. ReassignRequest.fromRepId r \<noteq> ReassignRequest.toRepId r)
        (get_reassigns
           (ReassignPage.service
              (snd (Reassign_onSubmit (reassignForm (Some [''Adams'']) [] []) reassignPage0))))"
proof -
  let ?d = "reassignForm (Some [''Adams'']) [] []"
  have h1: "ReassignmentFormValues.fromRepId ?d
         \<in> value ` set (loadSalesReps (ReassignmentFormValues.typeId ?d))"
    by (simp add: reassignForm_def loadSalesReps_1)
  have h2: "ReassignmentFormValues.toRepId ?d
         \<in> value ` set (loadToSalesReps (ReassignmentFormValues.typeId ?d)
                           (ReassignmentFormValues.fromRepId ?d))"
    by (simp add: reassignForm_def loadToSalesReps_1_101)
  have h3: "\<forall>r \<in> set (get_reassigns (ReassignPage.service reassignPage0)).
                   ReassignRequest.fromRepId r \<noteq> ReassignRequest.toRepId r"
    by (simp add: reassignPage0_def newAssignmentService_def get_reassigns_def)
  have v: "map value (loadToSalesReps ''1'' ''101'') = [''102'']"
    by (simp add: loadToSalesReps_1_101)
  have m: "ReassignmentFormValues.mode ?d = County" by (simp add: reassignForm_def)
  have st: "get_reassigns (ReassignPage.service (snd (Reassign_onSubmit ?d reassignPage0)))
       = [reassignRequestOf ?d]"
    by (simp add: Reassign_onSubmit_county [OF m] reassignPage0_def newAssignmentService_def
        get_reassigns_def addReassign_def)
  from to_options_exclude_from_rep [of "''1''" "''101''" ?d reassignPage0] h1 h2 h3
  have c: "ReassignRequest.fromRepId (reassignRequestOf ?d)
             \<noteq> ReassignRequest.toRepId (reassignRequestOf ?d)"
    and i: "\<forall>r \<in> set (get_reassigns (ReassignPage.service (snd (Reassign_onSubmit ?d reassignPage0)))).
                   ReassignRequest.fromRepId r \<noteq> ReassignRequest.toRepId r"
    by blast+
  from i have "list_all (\<lambda>r. ReassignRequest.fromRepId r \<noteq> ReassignRequest.toRepId r)
        (get_reassigns (ReassignPage.service (snd (Reassign_onSubmit ?d reassignPage0))))"
    by (simp add: list_all_iff)
  with h1 h2 v c st show ?thesis by blast
qed

section \<open>The ownership check of a reassignment\<close>

lemma ownershipLoop_filter:
  "ownershipLoop territories a b (ok, bad)
     = (ok \<and> filter (\<lambda>c. \<not> list_ex (\<lambda>t. zipCode t = c) territories)
                (map (\<lambda>z. padStart (toString (Num z)) 5 ''0'') [a..b]) = [],
        bad @ filter (\<lambda>c. \<not> list_ex (\<lambda>t. zipCode t = c) territories)
                (map (\<lambda>z. padStart (toString (Num z)) 5 ''0'') [a..b]))"
proof (induction "nat (b - a + 1)" arbitrary: a ok bad)
  case 0
  then have "\<not> a \<le> b" by simp
  then show ?case by (subst ownershipLoop.simps) simp
next
  case (Suc n)
  then have le: "a \<le> b" and n: "n = nat (b - (a + 1) + 1)" by simp_all
  note IH = Suc.hyps(1) [OF n]
  show ?case
    using le by (subst ownershipLoop.simps) (simp add: IH upto_rec1 [of a b] Let_def)
qed

lemma ownershipCheck_filter:
  "ownershipCheck territories zFrom zTo
     = (offendingZips territories zFrom zTo = [], offendingZips territories zFrom zTo)"
  by (simp add: ownershipCheck_def offendingZips_def zipRows_def ownershipLoop_filter
      zipLoop_map split: jsnum.splits)


lemma Reassign_onSubmit_zip:
  assumes "ReassignmentFormValues.mode data = Zip"
  shows "Reassign_onSubmit data page =
     (if offendingZips (currentTerritories page)
           (parseInt (orElse (ReassignmentFormValues.zipFrom data) ''0''))
           (parseInt (orElse (ReassignmentFormValues.zipTo data) ''0'')) \<noteq> []
      then (ShowError (''Some ZIPs are not assigned to the selected rep: ''
              @ join (offendingZips (currentTerritories page)
                        (parseInt (orElse (ReassignmentFormValues.zipFrom data) ''0''))
                        (parseInt (orElse (ReassignmentFormValues.zipTo data) ''0''))) '', ''),
            page)
      else (ShowSuccess ''Reassignment added successfully'',
            page\<lparr>ReassignPage.service :=
                   addReassign (reassignRequestOf data) (ReassignPage.service page),
                 reassignments :=
                   zipRows
                     (reassignmentRow data page
                        (orElse (map_option label
                           (findFirst (fromSalesReps page)
                              (\<lambda>r. value r = ReassignmentFormValues.fromRepId data)))
                           ''Unknown'')
                        (orElse (map_option label
                           (findFirst (toSalesReps page)
                              (\<lambda>r. value r = ReassignmentFormValues.toRepId data)))
                           ''Unknown''))
                     (parseInt (orElse (ReassignmentFormValues.zipFrom data) ''0''))
                     (parseInt (orElse (ReassignmentFormValues.zipTo data) ''0''))
                     (reassignments page)\<rparr>))"
  using assms by (simp add: Reassign_onSubmit_def Let_def ownershipCheck_filter)

lemma parseInt_80019: "parseInt ''80019'' = Num 80019"
  by (simp add: parseInt_eval)

lemma parseInt_80022: "parseInt ''80022'' = Num 80022"
  by (simp add: parseInt_eval)

lemma parseInt_80024: "parseInt ''80024'' = Num 80024"
  by (simp add: parseInt_eval)

lemmas zipRows_eval =
  zipRows_def zipLoop_map padStart_def toString.simps natDigits.simps digitChar_def

lemma offending_80019_80022:
  "offendingZips territories_80019_80022 (Num 80019) (Num 80022) = [''80020'', ''80021'']"
  by (simp add: offendingZips_def territories_80019_80022_def zipRows_eval)

lemma offending_80019_80019:
  "offendingZips territories_80019_80022 (Num 80019) (Num 80019) = []"
  by (simp add: offendingZips_def territories_80019_80022_def zipRows_eval)

lemma offending_80022_80022:
  "offendingZips territories_80019_80022 (Num 80022) (Num 80022) = []"
  by (simp add: offendingZips_def territories_80019_80022_def zipRows_eval)

lemma offending_80019_80024:
  "offendingZips territories_80019_80022 (Num 80019) (Num 80024)
     = [''80020'', ''80021'', ''80023'', ''80024'']"
  by (simp add: offendingZips_def territories_80019_80022_def zipRows_eval)

text \<open>
  Claim C4 as the spec states it: with the snapshot 80019 and 80022 for rep 101, a
  reassignment of the range from 80019 to 80022 passes the check. It does not: the check
  runs over every ZIP code of the range, 80020 and 80021 are not in the snapshot, and
  \<open>onSubmit\<close> reports both and stages nothing.
\<close>

theorem ownership_example_counterexample:
  "ownershipCheck territories_80019_80022 (parseInt ''80019'') (parseInt ''80022'')
     = (False, [''80020'', ''80021''])
   \<and> Reassign_onSubmit (reassignForm (Some []) ''80019'' ''80022'')
        (reassignPage0\<lparr>currentTerritories := territories_80019_80022\<rparr>)
     = (ShowError ''Some ZIPs are not assigned to the selected rep: 80020, 80021'',
        reassignPage0\<lparr>currentTerritories := territories_80019_80022\<rparr>)"
proof -
  have m: "ReassignmentFormValues.mode (reassignForm (Some []) ''80019'' ''80022'') = Zip"
    by (simp add: reassignForm_def)
  have z: "orElse (ReassignmentFormValues.zipFrom (reassignForm (Some []) ''80019'' ''80022''))
             ''0'' = ''80019''"
          "orElse (ReassignmentFormValues.zipTo (reassignForm (Some []) ''80019'' ''80022''))
             ''0'' = ''80022''"
    by (simp_all add: reassignForm_def orElse_def)
  show ?thesis
    by (simp add: Reassign_onSubmit_zip [OF m] z ownershipCheck_filter parseInt_80019
        parseInt_80022 offending_80019_80022)
qed

text \<open>
  Claim C4, amended. In ZIP mode the ownership check requires every ZIP code of the
  expanded range, not only its two bounds, to be in the snapshot of the source rep, and
  collects all offending ZIP codes: \<open>onSubmit\<close> reports them all in one error and stages
  nothing, and stages the operation when there is none. With the snapshot 80019 and
  80022, the one-ZIP ranges 80019 and 80022 pass; the range from 80019 to 80022 fails
  with 80020 and 80021; the range from 80019 to 80024 fails with 80020, 80021, 80023 and
  80024.
\<close>

theorem ownership_check:
  "ownershipCheck territories zFrom zTo
     = (offendingZips territories zFrom zTo = [], offendingZips territories zFrom zTo)
   \<and> (ReassignmentFormValues.mode data = Zip
       \<and> offendingZips (currentTerritories page)
            (parseInt (orElse (ReassignmentFormValues.zipFrom data) ''0''))
            (parseInt (orElse (ReassignmentFormValues.zipTo data) ''0'')) \<noteq> []
       \<longrightarrow> Reassign_onSubmit data page
           = (ShowError (''Some ZIPs are not assigned to the selected rep: ''
                @ join (offendingZips (currentTerritories page)
                          (parseInt (orElse (ReassignmentFormValues.zipFrom data) ''0''))
                          (parseInt (orElse (ReassignmentFormValues.zipTo data) ''0'')))
                    '', ''),
              page))
   \<and> (ReassignmentFormValues.mode data = Zip
       \<and> offendingZips (currentTerritories page)
            (parseInt (orElse (ReassignmentFormValues.zipFrom data) ''0''))
            (parseInt (orElse (ReassignmentFormValues.zipTo data) ''0'')) = []
       \<longrightarrow> fst (Reassign_onSubmit data page) = ShowSuccess ''Reassignment added successfully''
           \<and> get_reassigns (ReassignPage.service (snd (Reassign_onSubmit data page)))
             = get_reassigns (ReassignPage.service page) @ [reassignRequestOf data])
   \<and> ownershipCheck territories_80019_80022 (parseInt ''80019'') (parseInt ''80019'')
       = (True, [])
   \<and> ownershipCheck territories_80019_80022 (parseInt ''80022'') (parseInt ''80022'')
       = (True, [])
   \<and> ownershipCheck territories_80019_80022 (parseInt ''80019'') (parseInt ''80022'')
       = (False, [''80020'', ''80021''])
   \<and> ownershipCheck territories_80019_80022 (parseInt ''80019'') (parseInt ''80024'')
       = (False, [''80020'', ''80021'', ''80023'', ''80024''])"
proof (intro conjI impI)
  show "ownershipCheck territories zFrom zTo
     = (offendingZips territories zFrom zTo = [], offendingZips territories zFrom zTo)"
    by (rule ownershipCheck_filter)
next
  assume "ReassignmentFormValues.mode data = Zip
       \<and> offendingZips (currentTerritories page)
            (parseInt (orElse (ReassignmentFormValues.zipFrom data) ''0''))
            (parseInt (orElse (ReassignmentFormValues.zipTo data) ''0'')) \<noteq> []"
  then show "Reassign_onSubmit data page
           = (ShowError (''Some ZIPs are not assigned to the selected rep: ''
                @ join (offendingZips (currentTerritories page)
                          (parseInt (orElse (ReassignmentFormValues.zipFrom data) ''0''))
                          (parseInt (orElse (ReassignmentFormValues.zipTo data) ''0'')))
                    '', ''),
              page)"
    by (simp add: Reassign_onSubmit_zip)
next
  assume h: "ReassignmentFormValues.mode data = Zip
       \<and> offendingZips (currentTerritories page)
            (parseInt (orElse (ReassignmentFormValues.zipFrom data) ''0''))
            (parseInt (orElse (ReassignmentFormValues.zipTo data) ''0'')) = []"
  then show "fst (Reassign_onSubmit data page)
      = ShowSuccess ''Reassignment added successfully''"
    by (simp add: Reassign_onSubmit_zip)
  from h show "get_reassigns (ReassignPage.service (snd (Reassign_onSubmit data page)))
             = get_reassigns (ReassignPage.service page) @ [reassignRequestOf data]"
    by (simp add: Reassign_onSubmit_zip get_reassigns_def addReassign_def)
next
  show "ownershipCheck territories_80019_80022 (parseInt ''80019'') (parseInt ''80019'')
       = (True, [])"
    by (simp add: ownershipCheck_filter parseInt_80019 offending_80019_80019)
  show "ownershipCheck territories_80019_80022 (parseInt ''80022'') (parseInt ''80022'')
       = (True, [])"
    by (simp add: ownershipCheck_filter parseInt_80022 offending_80022_80022)
  show "ownershipCheck territories_80019_80022 (parseInt ''80019'') (parseInt ''80022'')
       = (False, [''80020'', ''80021''])"
    by (simp add: ownershipCheck_filter parseInt_80019 parseInt_80022 offending_80019_80022)
  show "ownershipCheck territories_80019_80022 (parseInt ''80019'') (parseInt ''80024'')
       = (False, [''80020'', ''80021'', ''80023'', ''80024''])"
    by (simp add: ownershipCheck_filter parseInt_80019 parseInt_80024 offending_80019_80024)
qed

text \<open>
  On a page whose snapshot is 80019 and 80022: the one-ZIP range 80019 is staged; the
  range from 80019 to 80024 is rejected with all four offending ZIP codes.
\<close>

theorem ownership_check_witness:
  "fst (Reassign_onSubmit (reassignForm (Some []) ''80019'' ''80019'')
          (reassignPage0\<lparr>currentTerritories := territories_80019_80022\<rparr>))
     = ShowSuccess ''Reassignment added successfully''
   \<and> get_reassigns
        (ReassignPage.service
           (snd (Reassign_onSubmit (reassignForm (Some []) ''80019'' ''80019'')
                   (reassignPage0\<lparr>currentTerritories := territories_80019_80022\<rparr>))))
       = [reassignRequestOf (reassignForm (Some []) ''80019'' ''80019'')]
   \<and> Reassign_onSubmit (reassignForm (Some []) ''80019'' ''80024'')
        (reassignPage0\<lparr>currentTerritories := territories_80019_80022\<rparr>)
     = (ShowError
          ''Some ZIPs are not assigned to the selected rep: 80020, 80021, 80023, 80024'',
        reassignPage0\<lparr>currentTerritories := territories_80019_80022\<rparr>)"
proof -
  let ?p = "reassignPage0\<lparr>currentTerritories := territories_80019_80022\<rparr>"
  let ?ok = "reassignForm (Some []) ''80019'' ''80019''"
  let ?bad = "reassignForm (Some []) ''80019'' ''80024''"
  have ct: "currentTerritories ?p = territories_80019_80022" by simp
  have s0: "get_reassigns (ReassignPage.service ?p) = []"
    by (simp add: reassignPage0_def newAssignmentService_def get_reassigns_def)
  have ok: "ReassignmentFormValues.mode ?ok = Zip
       \<and> offendingZips (currentTerritories ?p)
            (parseInt (orElse (ReassignmentFormValues.zipFrom ?ok) ''0''))
            (parseInt (orElse (ReassignmentFormValues.zipTo ?ok) ''0'')) = []"
    unfolding ct
    by (simp add: reassignForm_def orElse_def parseInt_80019 offending_80019_80019)
  have off: "offendingZips (currentTerritories ?p)
            (parseInt (orElse (ReassignmentFormValues.zipFrom ?bad) ''0''))
            (parseInt (orElse (ReassignmentFormValues.zipTo ?bad) ''0''))
          = [''80020'', ''80021'', ''80023'', ''80024'']"
    unfolding ct
    by (simp add: reassignForm_def orElse_def parseInt_80019 parseInt_80024
        offending_80019_80024)
  have bad: "ReassignmentFormValues.mode ?bad = Zip
       \<and> offendingZips (currentTerritories ?p)
            (parseInt (orElse (ReassignmentFormValues.zipFrom ?bad) ''0''))
            (parseInt (orElse (ReassignmentFormValues.zipTo ?bad) ''0'')) \<noteq> []"
    unfolding off by (simp add: reassignForm_def)
  from ok ownership_check [of _ _ _ ?ok ?p]
  have 1: "fst (Reassign_onSubmit ?ok ?p) = ShowSuccess ''Reassignment added successfully''"
    and 2: "get_reassigns (ReassignPage.service (snd (Reassign_onSubmit ?ok ?p)))
             = get_reassigns (ReassignPage.service ?p) @ [reassignRequestOf ?ok]"
    by blast+
  from bad ownership_check [of _ _ _ ?bad ?p]
  have 3: "Reassign_onSubmit ?bad ?p
           = (ShowError (''Some ZIPs are not assigned to the selected rep: ''
                @ join (offendingZips (currentTerritories ?p)
                          (parseInt (orElse (ReassignmentFormValues.zipFrom ?bad) ''0''))
                          (parseInt (orElse (ReassignmentFormValues.zipTo ?bad) ''0'')))
                    '', ''),
              ?p)"
    by blast
  show ?thesis
    using 1 2 3 unfolding off s0 by simp
qed

section \<open>Range expansion: ZIP codes\<close>

lemma upto_hd: "a \<le> b \<Longrightarrow> hd (map f [a..b]) = f a"
  by (simp add: upto_rec1)

lemma upto_last: "a \<le> b \<Longrightarrow> last (map f [a..b]) = f b"
  by (simp add: upto_rec2)

lemma Assign_onSubmit_zip_rows:
  assumes "AssignmentFormValues.mode data = Zip"
    and "AssignmentFormValues.zipFrom data = Some zf" "AssignmentFormValues.zipTo data = Some zt"
    and "zf \<noteq> []" "zt \<noteq> []"
    and "valid (validate (Some (assignRequestOf data)))"
  shows "fst (Assign_onSubmit data page) = ShowSuccess ''Assignment added successfully''"
    and "AssignPage.service (snd (Assign_onSubmit data page))
           = addAssign (assignRequestOf data) (AssignPage.service page)"
    and "take (length (assignments page)) (assignments (snd (Assign_onSubmit data page)))
           = assignments page"
    and "map AssignmentDisplay.location
           (drop (length (assignments page)) (assignments (snd (Assign_onSubmit data page))))
           = zipRows (\<lambda>loc. loc) (parseInt zf) (parseInt zt) []"
proof -
  let ?row = "assignmentRow data page
     (orElse (map_option label
        (findFirst (salesReps page) (\<lambda>r. value r = AssignmentFormValues.repId data)))
        ''Unknown'')"
  have r: "Assign_onSubmit data page
      = (ShowSuccess ''Assignment added successfully'',
         page\<lparr>AssignPage.service := addAssign (assignRequestOf data) (AssignPage.service page),
              assignments := assignments page
                @ map ?row (zipRows (\<lambda>loc. loc) (parseInt zf) (parseInt zt) [])\<rparr>)"
    using assms zipRows_tokens [of ?row "parseInt zf" "parseInt zt" "assignments page"]
    by (simp add: Assign_onSubmit_def Let_def orElse_def)
  show "fst (Assign_onSubmit data page) = ShowSuccess ''Assignment added successfully''"
    by (simp add: r)
  show "AssignPage.service (snd (Assign_onSubmit data page))
           = addAssign (assignRequestOf data) (AssignPage.service page)"
    by (simp add: r)
  show "take (length (assignments page)) (assignments (snd (Assign_onSubmit data page)))
           = assignments page"
    by (simp add: r)
  show "map AssignmentDisplay.location
           (drop (length (assignments page)) (assignments (snd (Assign_onSubmit data page))))
           = zipRows (\<lambda>loc. loc) (parseInt zf) (parseInt zt) []"
    by (simp add: r assignmentRow_def comp_def)
qed

lemma Reassign_onSubmit_zip_rows:
  assumes "ReassignmentFormValues.mode data = Zip"
    and "ReassignmentFormValues.zipFrom data = Some zf"
        "ReassignmentFormValues.zipTo data = Some zt"
    and "zf \<noteq> []" "zt \<noteq> []"
    and "fst (ownershipCheck (currentTerritories page) (parseInt zf) (parseInt zt))"
  shows "fst (Reassign_onSubmit data page) = ShowSuccess ''Reassignment added successfully''"
    and "ReassignPage.service (snd (Reassign_onSubmit data page))
           = addReassign (reassignRequestOf data) (ReassignPage.service page)"
    and "take (length (reassignments page)) (reassignments (snd (Reassign_onSubmit data page)))
           = reassignments page"
    and "map ReassignmentDisplay.location
           (drop (length (reassignments page))
              (reassignments (snd (Reassign_onSubmit data page))))
           = zipRows (\<lambda>loc. loc) (parseInt zf) (parseInt zt) []"
proof -
  let ?row = "reassignmentRow data page
     (orElse (map_option label
        (findFirst (fromSalesReps page)
           (\<lambda>r. value r = ReassignmentFormValues.fromRepId data))) ''Unknown'')
     (orElse (map_option label
        (findFirst (toSalesReps page)
           (\<lambda>r. value r = ReassignmentFormValues.toRepId data))) ''Unknown'')"
  obtain ok bad where c:
    "ownershipCheck (currentTerritories page) (parseInt zf) (parseInt zt) = (ok, bad)"
    by (cases "ownershipCheck (currentTerritories page) (parseInt zf) (parseInt zt)")
  with assms(6) have ok: "ok" by simp
  have r: "Reassign_onSubmit data page
      = (ShowSuccess ''Reassignment added successfully'',
         page\<lparr>ReassignPage.service :=
                addReassign (reassignRequestOf data) (ReassignPage.service page),
              reassignments := reassignments page
                @ map ?row (zipRows (\<lambda>loc. loc) (parseInt zf) (parseInt zt) [])\<rparr>)"
    using assms(1-5) c ok
      zipRows_tokens [of ?row "parseInt zf" "parseInt zt" "reassignments page"]
    by (simp add: Reassign_onSubmit_def Let_def orElse_def)
  show "fst (Reassign_onSubmit data page) = ShowSuccess ''Reassignment added successfully''"
    by (simp add: r)
  show "ReassignPage.service (snd (Reassign_onSubmit data page))
           = addReassign (reassignRequestOf data) (ReassignPage.service page)"
    by (simp add: r)
  show "take (length (reassignments page)) (reassignments (snd (Reassign_onSubmit data page)))
           = reassignments page"
    by (simp add: r)
  show "map ReassignmentDisplay.location
           (drop (length (reassignments page))
              (reassignments (snd (Reassign_onSubmit data page))))
           = zipRows (\<lambda>loc. loc) (parseInt zf) (parseInt zt) []"
    by (simp add: r reassignmentRow_def comp_def)
qed

text \<open>
  The gates in front of the loop: a request that \<open>validate\<close> rejects (either bound is
  80019) ends \<open>onSubmit\<close> of the Assign page with the error and no new row, and a range
  that fails the ownership check does the same on the Reassign page.
\<close>
lemma Assign_onSubmit_rejected:
  "\<not> valid (validate (Some (assignRequestOf data))) \<Longrightarrow>
   Assign_onSubmit data page
     = (ShowError (join (errors (validate (Some (assignRequestOf data)))) '', ''), page)"
  by (simp add: Assign_onSubmit_def Let_def)

lemma Reassign_onSubmit_rejected:
  "ReassignmentFormValues.mode data = Zip \<Longrightarrow>
   \<not> fst (ownershipCheck (currentTerritories page)
            (parseInt (orElse (ReassignmentFormValues.zipFrom data) ''0''))
            (parseInt (orElse (ReassignmentFormValues.zipTo data) ''0''))) \<Longrightarrow>
   snd (Reassign_onSubmit data page) = page"
  by (auto simp: Reassign_onSubmit_def Let_def split: prod.splits)

text \<open>
  Claim C2. For a ZIP range that the form schema accepts (both bounds five digits,
  \<open>zipFrom\<close> not above \<open>zipTo\<close>), the loop of the \<open>onSubmit\<close> handlers produces
  \<open>zipTo - zipFrom + 1\<close> location tokens, each of five digits, whose numeric values are
  \<open>zipFrom, zipFrom + 1, ..., zipTo\<close> and so strictly ascending; the first token is
  \<open>zipFrom\<close> and the last is \<open>zipTo\<close>, and equal bounds give the single token. Both
  handlers expand the range so: \<open>onSubmit\<close> of the Assign page, once \<open>validate\<close> has
  accepted the request, and \<open>onSubmit\<close> of the Reassign page, once the ownership check
  has passed, keep the rows of the preview and append one row per token, in that order.
\<close>

theorem zip_range_expansion:
  assumes "selectorRefine Zip cs (Some zf) (Some zt)"
  shows "(\<exists>a b. parseInt zf = Num a \<and> parseInt zt = Num b \<and> a \<le> b
          \<and> length (zipRows (\<lambda>loc. loc) (parseInt zf) (parseInt zt) []) = nat (b - a + 1)
          \<and> list_all testFiveDigits (zipRows (\<lambda>loc. loc) (parseInt zf) (parseInt zt) [])
          \<and> map parseInt (zipRows (\<lambda>loc. loc) (parseInt zf) (parseInt zt) [])
                = map Num [a..b]
          \<and> sorted_wrt (\<lambda>x y. numLt (parseInt x) (parseInt y))
                (zipRows (\<lambda>loc. loc) (parseInt zf) (parseInt zt) [])
          \<and> hd (zipRows (\<lambda>loc. loc) (parseInt zf) (parseInt zt) []) = zf
          \<and> last (zipRows (\<lambda>loc. loc) (parseInt zf) (parseInt zt) []) = zt
          \<and> (zf = zt \<longrightarrow> zipRows (\<lambda>loc. loc) (parseInt zf) (parseInt zt) [] = [zf])
          \<and> zipRows row (parseInt zf) (parseInt zt) prev
              = prev @ map row (zipRows (\<lambda>loc. loc) (parseInt zf) (parseInt zt) []))
       \<and> (AssignmentFormValues.mode data = Zip
           \<and> AssignmentFormValues.zipFrom data = Some zf
           \<and> AssignmentFormValues.zipTo data = Some zt
           \<and> valid (validate (Some (assignRequestOf data)))
           \<longrightarrow> fst (Assign_onSubmit data page) = ShowSuccess ''Assignment added successfully''
               \<and> take (length (assignments page)) (assignments (snd (Assign_onSubmit data page)))
                   = assignments page
               \<and> map AssignmentDisplay.location
                    (drop (length (assignments page))
                       (assignments (snd (Assign_onSubmit data page))))
                   = zipRows (\<lambda>loc. loc) (parseInt zf) (parseInt zt) [])
       \<and> (ReassignmentFormValues.mode rdata = Zip
           \<and> ReassignmentFormValues.zipFrom rdata = Some zf
           \<and> ReassignmentFormValues.zipTo rdata = Some zt
           \<and> fst (ownershipCheck (currentTerritories rpage) (parseInt zf) (parseInt zt))
           \<longrightarrow> fst (Reassign_onSubmit rdata rpage)
                   = ShowSuccess ''Reassignment added successfully''
               \<and> take (length (reassignments rpage))
                    (reassignments (snd (Reassign_onSubmit rdata rpage)))
                   = reassignments rpage
               \<and> map ReassignmentDisplay.location
                    (drop (length (reassignments rpage))
                       (reassignments (snd (Reassign_onSubmit rdata rpage))))
                   = zipRows (\<lambda>loc. loc) (parseInt zf) (parseInt zt) [])"
proof -
  let ?tok = "\<lambda>z. padStart (toString (Num z)) 5 ''0''"
  from assms have five: "testFiveDigits zf" "testFiveDigits zt"
    and le: "numLe (parseInt zf) (parseInt zt)"
    and ne: "zf \<noteq> []" "zt \<noteq> []"
    by (simp_all add: selectorRefine_def)
  from testFiveDigits_parse [OF five(1)] obtain a where
    a: "parseInt zf = Num a" "0 \<le> a" "a < 100000" "?tok a = zf" by blast
  from testFiveDigits_parse [OF five(2)] obtain b where
    b: "parseInt zt = Num b" "0 \<le> b" "b < 100000" "?tok b = zt" by blast
  from le a(1) b(1) have ab: "a \<le> b" by simp
  let ?toks = "zipRows (\<lambda>loc. loc) (parseInt zf) (parseInt zt) []"
  have toks: "?toks = map ?tok [a..b]"
    by (simp add: zipRows_def a(1) b(1) zipLoop_map)
  have rng: "0 \<le> z \<and> z < 100000" if "z \<in> set [a..b]" for z
    using that a(2) b(3) by simp
  have len: "length ?toks = nat (b - a + 1)"
    by (simp add: toks)
  have all5: "list_all testFiveDigits ?toks"
    unfolding toks using rng by (simp add: list_all_iff zipCode_five)
  have parse: "map parseInt ?toks = map Num [a..b]"
    unfolding toks using rng by (simp add: zipCode_parse)
  have "sorted_wrt (\<lambda>x y. numLt (Num x) (Num y)) [a..b]"
    by simp
  then have "sorted_wrt (\<lambda>x y. numLt (parseInt (?tok x)) (parseInt (?tok y))) [a..b]"
    by (rule sorted_wrt_mono_rel [rotated]) (use rng in \<open>simp add: zipCode_parse\<close>)
  then have srt: "sorted_wrt (\<lambda>x y. numLt (parseInt x) (parseInt y)) ?toks"
    unfolding toks by (simp add: sorted_wrt_map)
  have h: "hd ?toks = zf"
    unfolding toks using ab a(4) by (simp add: upto_hd)
  have l: "last ?toks = zt"
    unfolding toks using ab b(4) by (simp add: upto_last)
  have single: "?toks = [zf]" if "zf = zt"
  proof -
    from that a(1) b(1) have "a = b" by simp
    then show ?thesis unfolding toks using a(4) by simp
  qed
  have rows: "zipRows row (parseInt zf) (parseInt zt) prev = prev @ map row ?toks"
    by (rule zipRows_tokens)
  have loop: "\<exists>a b. parseInt zf = Num a \<and> parseInt zt = Num b \<and> a \<le> b
          \<and> length ?toks = nat (b - a + 1)
          \<and> list_all testFiveDigits ?toks
          \<and> map parseInt ?toks = map Num [a..b]
          \<and> sorted_wrt (\<lambda>x y. numLt (parseInt x) (parseInt y)) ?toks
          \<and> hd ?toks = zf \<and> last ?toks = zt
          \<and> (zf = zt \<longrightarrow> ?toks = [zf])
          \<and> zipRows row (parseInt zf) (parseInt zt) prev = prev @ map row ?toks"
    using a(1) b(1) ab len all5 parse srt h l single rows by blast
  have assign: "fst (Assign_onSubmit data page) = ShowSuccess ''Assignment added successfully''
               \<and> take (length (assignments page)) (assignments (snd (Assign_onSubmit data page)))
                   = assignments page
               \<and> map AssignmentDisplay.location
                    (drop (length (assignments page))
                       (assignments (snd (Assign_onSubmit data page))))
                   = ?toks"
    if "AssignmentFormValues.mode data = Zip
           \<and> AssignmentFormValues.zipFrom data = Some zf
           \<and> AssignmentFormValues.zipTo data = Some zt
           \<and> valid (validate (Some (assignRequestOf data)))"
    using that ne Assign_onSubmit_zip_rows [of data zf zt page] by blast
  have reassign: "fst (Reassign_onSubmit rdata rpage)
                   = ShowSuccess ''Reassignment added successfully''
               \<and> take (length (reassignments rpage))
                    (reassignments (snd (Reassign_onSubmit rdata rpage)))
                   = reassignments rpage
               \<and> map ReassignmentDisplay.location
                    (drop (length (reassignments rpage))
                       (reassignments (snd (Reassign_onSubmit rdata rpage))))
                   = ?toks"
    if "ReassignmentFormValues.mode rdata = Zip
           \<and> ReassignmentFormValues.zipFrom rdata = Some zf
           \<and> ReassignmentFormValues.zipTo rdata = Some zt
           \<and> fst (ownershipCheck (currentTerritories rpage) (parseInt zf) (parseInt zt))"
    using that ne Reassign_onSubmit_zip_rows [of rdata zf zt rpage] by blast
  from loop assign reassign show ?thesis by blast
qed

text \<open>
  The range from 80010 to 80012 expands to 80010, 80011, 80012, and the Assign page
  appends these three rows; the Reassign page for source rep 102 appends the rows 80030
  and 80031 for the range from 80030 to 80031.
\<close>

lemma parseInt_80030: "parseInt ''80030'' = Num 80030"
  by (simp add: parseInt_eval)

lemma parseInt_80031: "parseInt ''80031'' = Num 80031"
  by (simp add: parseInt_eval)

lemma zipRows_80030_80031:
  "zipRows (\<lambda>loc. loc) (Num 80030) (Num 80031) [] = [''80030'', ''80031'']"
  by (simp add: zipRows_def zipLoop_map padStart_def toString.simps natDigits.simps
      digitChar_def)

lemma reassignPage102_territories:
  "map zipCode (currentTerritories reassignPage102)
     = [''80030'', ''80031'', ''80301'', ''80302'']"
  by (simp add: reassignPage102_def loadCurrentTerritories_def parseInt_102
      getCurrentAssignments_def)

lemma reassignPage102_owns: "fst (ownershipCheck (currentTerritories reassignPage102) (Num 80030) (Num 80031))"
proof -
  have "list_ex (\<lambda>t. zipCode t = c) ts = (c \<in> set (map zipCode ts))" for c and ts :: "CurrentTerritory list"
    by (auto simp: list_ex_iff)
  then show ?thesis
    by (simp only: ownershipCheck_filter offendingZips_def zipRows_80030_80031
          reassignPage102_territories)
       simp
qed

theorem zip_range_expansion_witness:
  "selectorRefine Zip None (Some ''80010'') (Some ''80012'')
   \<and> zipRows (\<lambda>loc. loc) (parseInt ''80010'') (parseInt ''80012'') []
       = [''80010'', ''80011'', ''80012'']
   \<and> hd (zipRows (\<lambda>loc. loc) (parseInt ''80010'') (parseInt ''80012'') []) = ''80010''
   \<and> last (zipRows (\<lambda>loc. loc) (parseInt ''80010'') (parseInt ''80012'') []) = ''80012''
   \<and> list_all testFiveDigits
        (zipRows (\<lambda>loc. loc) (parseInt ''80010'') (parseInt ''80012'') [])
   \<and> sorted_wrt (\<lambda>x y. numLt (parseInt x) (parseInt y))
        (zipRows (\<lambda>loc. loc) (parseInt ''80010'') (parseInt ''80012'') [])
   \<and> valid (validate (Some (assignRequestOf (assignForm (Some []) ''80010'' ''80012''))))
   \<and> fst (Assign_onSubmit (assignForm (Some []) ''80010'' ''80012'') assignPage0)
       = ShowSuccess ''Assignment added successfully''
   \<and> map AssignmentDisplay.location
        (assignments (snd (Assign_onSubmit (assignForm (Some []) ''80010'' ''80012'')
                             assignPage0)))
       = [''80010'', ''80011'', ''80012'']
   \<and> selectorRefine Zip None (Some ''80030'') (Some ''80031'')
   \<and> fst (ownershipCheck (currentTerritories reassignPage102)
            (parseInt ''80030'') (parseInt ''80031''))
   \<and> fst (Reassign_onSubmit reassignForm102 reassignPage102)
       = ShowSuccess ''Reassignment added successfully''
   \<and> map ReassignmentDisplay.location
        (reassignments (snd (Reassign_onSubmit reassignForm102 reassignPage102)))
       = [''80030'', ''80031'']"
proof -
  let ?d = "assignForm (Some []) ''80010'' ''80012''"
  have h1: "selectorRefine Zip None (Some ''80010'') (Some ''80012'')"
    by (simp add: selectorRefine_def testFiveDigits_def isDigit_def digitValue_def
        digitTable_def parseInt_80010 parseInt_80012)
  have v1: "zipRows (\<lambda>loc. loc) (parseInt ''80010'') (parseInt ''80012'') []
       = [''80010'', ''80011'', ''80012'']"
    by (simp add: parseInt_80010 parseInt_80012 zipRows_80010_80012)
  have g1: "AssignmentFormValues.mode ?d = Zip
           \<and> AssignmentFormValues.zipFrom ?d = Some ''80010''
           \<and> AssignmentFormValues.zipTo ?d = Some ''80012''
           \<and> valid (validate (Some (assignRequestOf ?d)))"
    by (simp add: assignForm_def assignRequestOf_def validate_def)
  have a0: "assignments assignPage0 = []" by (simp add: assignPage0_def)
  have h2: "selectorRefine Zip None (Some ''80030'') (Some ''80031'')"
    by (simp add: selectorRefine_def testFiveDigits_def isDigit_def digitValue_def
        digitTable_def parseInt_80030 parseInt_80031)
  have v2: "zipRows (\<lambda>loc. loc) (parseInt ''80030'') (parseInt ''80031'') []
       = [''80030'', ''80031'']"
    by (simp add: parseInt_80030 parseInt_80031 zipRows_80030_80031)
  have o2: "fst (ownershipCheck (currentTerritories reassignPage102)
            (parseInt ''80030'') (parseInt ''80031''))"
    by (simp add: parseInt_80030 parseInt_80031 reassignPage102_owns)
  have g2: "ReassignmentFormValues.mode reassignForm102 = Zip
           \<and> ReassignmentFormValues.zipFrom reassignForm102 = Some ''80030''
           \<and> ReassignmentFormValues.zipTo reassignForm102 = Some ''80031''
           \<and> fst (ownershipCheck (currentTerritories reassignPage102)
                    (parseInt ''80030'') (parseInt ''80031''))"
    using o2 by (simp add: reassignForm102_def)
  have r0: "reassignments reassignPage102 = []" by (simp add: reassignPage102_def)
  note t1 = zip_range_expansion [OF h1, of "\<lambda>loc. loc" "[]" ?d assignPage0
              reassignForm102 reassignPage102]
  note t2 = zip_range_expansion [OF h2, of "\<lambda>loc. loc" "[]" ?d assignPage0
              reassignForm102 reassignPage102]
  from t1 g1 have A: "fst (Assign_onSubmit ?d assignPage0)
         = ShowSuccess ''Assignment added successfully''"
    and B: "map AssignmentDisplay.location
        (drop (length (assignments assignPage0))
           (assignments (snd (Assign_onSubmit ?d assignPage0))))
       = zipRows (\<lambda>loc. loc) (parseInt ''80010'') (parseInt ''80012'') []"
    and C: "hd (zipRows (\<lambda>loc. loc) (parseInt ''80010'') (parseInt ''80012'') []) = ''80010''"
    and D: "last (zipRows (\<lambda>loc. loc) (parseInt ''80010'') (parseInt ''80012'') []) = ''80012''"
    and E: "list_all testFiveDigits
        (zipRows (\<lambda>loc. loc) (parseInt ''80010'') (parseInt ''80012'') [])"
    and F: "sorted_wrt (\<lambda>x y. numLt (parseInt x) (parseInt y))
        (zipRows (\<lambda>loc. loc) (parseInt ''80010'') (parseInt ''80012'') [])"
    by blast+
  from t2 g2 have G: "fst (Reassign_onSubmit reassignForm102 reassignPage102)
         = ShowSuccess ''Reassignment added successfully''"
    and H: "map ReassignmentDisplay.location
        (drop (length (reassignments reassignPage102))
           (reassignments (snd (Reassign_onSubmit reassignForm102 reassignPage102))))
       = zipRows (\<lambda>loc. loc) (parseInt ''80030'') (parseInt ''80031'') []"
    by blast+
  from B have B': "map AssignmentDisplay.location
        (assignments (snd (Assign_onSubmit ?d assignPage0))) = [''80010'', ''80011'', ''80012'']"
    by (simp add: a0 v1)
  from H have H': "map ReassignmentDisplay.location
        (reassignments (snd (Reassign_onSubmit reassignForm102 reassignPage102)))
       = [''80030'', ''80031'']"
    by (simp add: r0 v2)
  from g1 have V: "valid (validate (Some (assignRequestOf ?d)))" by blast
  show ?thesis
    using h1 v1 C D E F V A B' h2 o2 G H' by blast
qed

text \<open>
  The gate at work: the range from 80019 to 80020 passes the form schema, and
  \<open>validate\<close> rejects it, so that the Assign page shows the error and adds no row.
\<close>
lemma Assign_onSubmit_80019_rejected:
  "Assign_onSubmit (assignForm (Some []) ''80019'' ''80020'') assignPage0
     = (ShowError ''ZIP 80019 overlaps Rep 99'', assignPage0)"
  by (simp add: Assign_onSubmit_def Let_def validate_def assignRequestOf_def assignForm_def)

section \<open>The getters return copies\<close>

text \<open>
  The heap-level methods do to the staged sequences what the methods of the sequence
  model do, and keep the service object's fields pointing to allocated arrays.
\<close>

lemma allocated_new: "allocated (fst (newServiceObj h)) (snd (newServiceObj h))"
  by (simp add: newServiceObj_def newAssignArray_def newReassignArray_def allocated_def)

lemma stagingOf_new:
  "stagingOf (fst (newServiceObj h)) (snd (newServiceObj h)) = newAssignmentService"
  by (simp add: newServiceObj_def newAssignArray_def newReassignArray_def stagingOf_def
      readAssigns_def readReassigns_def assignRefs_def reassignRefs_def
      newAssignmentService_def)

lemma map_filter_snoc:
  "f r = Some y \<Longrightarrow> List.map_filter f (rs @ [r]) = List.map_filter f rs @ [y]"
  by (simp add: List.map_filter_def)

lemma map_filter_defined:
  "list_all (\<lambda>r. f r \<noteq> None) rs \<Longrightarrow> List.map_filter f rs = map (\<lambda>r. the (f r)) rs"
  by (induction rs) (auto simp:)

lemma splice_map: "splice (map g xs) i n = map g (splice xs i n)"
  by (simp add: splice_def Let_def take_map drop_map)

lemma list_all_splice: "list_all P xs \<Longrightarrow> list_all P (splice xs i n)"
  by (auto simp: splice_def Let_def list_all_iff dest: in_set_takeD in_set_dropD)

lemma stagingOf_addAssignObj:
  "allocated this h \<Longrightarrow> assignObjs h r = Some op \<Longrightarrow>
   stagingOf this (addAssignObj r this h) = addAssign op (stagingOf this h)"
  by (auto simp: allocated_def stagingOf_def addAssignObj_def mutateAssignArray_def
      readAssigns_def readReassigns_def assignRefs_def reassignRefs_def addAssign_def
      map_filter_snoc split: option.splits)

lemma allocated_addAssignObj:
  "allocated this h \<Longrightarrow> assignObjs h r = Some op \<Longrightarrow> allocated this (addAssignObj r this h)"
  by (auto simp: allocated_def addAssignObj_def mutateAssignArray_def split: option.splits)

lemma stagingOf_addReassignObj:
  "allocated this h \<Longrightarrow> reassignObjs h r = Some op \<Longrightarrow>
   stagingOf this (addReassignObj r this h) = addReassign op (stagingOf this h)"
  by (auto simp: allocated_def stagingOf_def addReassignObj_def mutateReassignArray_def
      readAssigns_def readReassigns_def assignRefs_def reassignRefs_def addReassign_def
      map_filter_snoc split: option.splits)

lemma stagingOf_removeAssignObj:
  assumes "allocated this h"
  shows "stagingOf this (removeAssignObj index this h) = removeAssign index (stagingOf this h)"
proof -
  from assms obtain rs where rs: "assignArrays h (assignsRef this) = Some rs"
    "list_all (\<lambda>r. assignObjs h r \<noteq> None) rs"
    by (auto simp: allocated_def split: option.splits)
  from rs(2) have "list_all (\<lambda>r. assignObjs h r \<noteq> None) (splice rs index 1)"
    by (rule list_all_splice)
  then show ?thesis
    using rs
    by (simp add: stagingOf_def removeAssignObj_def removeAssign_def mutateAssignArray_def
        readAssigns_def readReassigns_def assignRefs_def reassignRefs_def
        map_filter_defined splice_map)
qed

lemma stagingOf_removeReassignObj:
  assumes "allocated this h"
  shows "stagingOf this (removeReassignObj index this h)
           = removeReassign index (stagingOf this h)"
proof -
  from assms obtain rs where rs: "reassignArrays h (reassignsRef this) = Some rs"
    "list_all (\<lambda>r. reassignObjs h r \<noteq> None) rs"
    by (auto simp: allocated_def split: option.splits)
  from rs(2) have "list_all (\<lambda>r. reassignObjs h r \<noteq> None) (splice rs index 1)"
    by (rule list_all_splice)
  then show ?thesis
    using rs
    by (simp add: stagingOf_def removeReassignObj_def removeReassign_def
        mutateReassignArray_def readAssigns_def readReassigns_def assignRefs_def
        reassignRefs_def map_filter_defined splice_map)
qed

lemma stagingOf_clearAllObj:
  "stagingOf (fst (clearAllObj this h)) (snd (clearAllObj this h)) = clearAll (stagingOf this h)"
  by (simp add: clearAllObj_def clearAssignsObj_def clearReassignsObj_def newAssignArray_def
      newReassignArray_def stagingOf_def readAssigns_def readReassigns_def assignRefs_def
      reassignRefs_def clearAll_def clearAssigns_def clearReassigns_def)

lemma batchUpdateObj_refines:
  "fst (batchUpdateObj request this h) = fst (batchUpdate request (stagingOf this h))
   \<and> stagingOf (fst (snd (batchUpdateObj request this h)))
        (snd (snd (batchUpdateObj request this h)))
       = snd (batchUpdate request (stagingOf this h))"
  by (simp add: batchUpdateObj_def batchUpdate_def clearAssignsObj_def clearReassignsObj_def
      newAssignArray_def newReassignArray_def stagingOf_def readAssigns_def readReassigns_def
      assignRefs_def reassignRefs_def split: option.splits)

lemma allocated_batchUpdateObj:
  "allocated this h \<Longrightarrow>
   allocated (fst (snd (batchUpdateObj request this h)))
     (snd (snd (batchUpdateObj request this h)))"
  by (simp add: batchUpdateObj_def clearAssignsObj_def clearReassignsObj_def
      newAssignArray_def newReassignArray_def allocated_def split: option.splits)

lemma allocated_getter:
  "allocated this h \<Longrightarrow> allocated this (snd (assignsGetter this h))"
  "allocated this h \<Longrightarrow> allocated this (snd (reassignsGetter this h))"
  by (auto simp: allocated_def assignsGetter_def reassignsGetter_def newAssignArray_def
      newReassignArray_def split: option.splits)

text \<open>
  Claim C7. The array that the getter \<open>assigns\<close> (or \<open>reassigns\<close>) returns has the
  elements of the private array, one by one, and so holds the staged sequence; calling
  the getter does not change the staging store; and whatever is then done to the returned
  array (any function \<open>f\<close> on its elements: a write at an index, \<open>push\<close>, \<open>splice\<close>,
  \<open>length = 0\<close>, ...) changes the returned array and leaves the staging store as it
  was.
\<close>

theorem getters_return_copies:
  assumes "allocated this h"
  shows "assignRefs (fst (assignsGetter this h)) (snd (assignsGetter this h))
           = assignRefs (assignsRef this) h
       \<and> readAssigns (fst (assignsGetter this h)) (snd (assignsGetter this h))
           = get_assigns (stagingOf this h)
       \<and> stagingOf this (snd (assignsGetter this h)) = stagingOf this h
       \<and> stagingOf this (mutateAssignArray (fst (assignsGetter this h)) f
                            (snd (assignsGetter this h)))
           = stagingOf this h
       \<and> assignRefs (fst (assignsGetter this h))
           (mutateAssignArray (fst (assignsGetter this h)) f (snd (assignsGetter this h)))
           = f (assignRefs (assignsRef this) h)
       \<and> reassignRefs (fst (reassignsGetter this h)) (snd (reassignsGetter this h))
           = reassignRefs (reassignsRef this) h
       \<and> readReassigns (fst (reassignsGetter this h)) (snd (reassignsGetter this h))
           = get_reassigns (stagingOf this h)
       \<and> stagingOf this (snd (reassignsGetter this h)) = stagingOf this h
       \<and> stagingOf this (mutateReassignArray (fst (reassignsGetter this h)) g
                            (snd (reassignsGetter this h)))
           = stagingOf this h
       \<and> reassignRefs (fst (reassignsGetter this h))
           (mutateReassignArray (fst (reassignsGetter this h)) g
              (snd (reassignsGetter this h)))
           = g (reassignRefs (reassignsRef this) h)"
  using assms
  by (simp add: allocated_def assignsGetter_def reassignsGetter_def newAssignArray_def
      newReassignArray_def mutateAssignArray_def mutateReassignArray_def stagingOf_def
      readAssigns_def readReassigns_def assignRefs_def reassignRefs_def get_assigns_def
      get_reassigns_def)

lemma stagedHeap_eval:
  "stagedObj = \<lparr>assignsRef = 0, reassignsRef = 1\<rparr>"
  "stagedHeap =
     \<lparr>assignObjs = [2 \<mapsto> assign80010], reassignObjs = Map.empty,
      assignArrays = [0 \<mapsto> [2]], reassignArrays = [1 \<mapsto> []], nextAddr = 3\<rparr>"
  by (simp_all add: stagedObj_def stagedHeap_def newServiceObj_def newAssignArray_def
      newReassignArray_def newAssignObj_def emptyHeap_def addAssignObj_def
      mutateAssignArray_def numeral_2_eq_2 numeral_3_eq_3)

lemma stagedHeap_allocated: "allocated stagedObj stagedHeap"
  by (simp add: stagedHeap_eval allocated_def)

lemma stagedHeap_staging:
  "stagingOf stagedObj stagedHeap = \<lparr>p_assigns = [assign80010], p_reassigns = []\<rparr>"
  by (simp add: stagedHeap_eval stagingOf_def readAssigns_def readReassigns_def
      assignRefs_def reassignRefs_def)

text \<open>
  With the one-ZIP assignment staged: emptying the array returned by \<open>assigns\<close>, or
  pushing onto the array returned by \<open>reassigns\<close>, changes that array and leaves the
  store with its one staged assignment.
\<close>

theorem getters_return_copies_witness:
  "allocated stagedObj stagedHeap
   \<and> readAssigns (fst (assignsGetter stagedObj stagedHeap))
        (snd (assignsGetter stagedObj stagedHeap)) = [assign80010]
   \<and> assignRefs (fst (assignsGetter stagedObj stagedHeap))
        (mutateAssignArray (fst (assignsGetter stagedObj stagedHeap)) (\<lambda>rs. [])
           (snd (assignsGetter stagedObj stagedHeap))) = []
   \<and> stagingOf stagedObj
        (mutateAssignArray (fst (assignsGetter stagedObj stagedHeap)) (\<lambda>rs. [])
           (snd (assignsGetter stagedObj stagedHeap)))
       = \<lparr>p_assigns = [assign80010], p_reassigns = []\<rparr>
   \<and> reassignRefs (fst (reassignsGetter stagedObj stagedHeap))
        (mutateReassignArray (fst (reassignsGetter stagedObj stagedHeap)) (\<lambda>rs. rs @ [0])
           (snd (reassignsGetter stagedObj stagedHeap))) = [0]
   \<and> stagingOf stagedObj
        (mutateReassignArray (fst (reassignsGetter stagedObj stagedHeap)) (\<lambda>rs. rs @ [0])
           (snd (reassignsGetter stagedObj stagedHeap)))
       = \<lparr>p_assigns = [assign80010], p_reassigns = []\<rparr>"
proof -
  have r: "reassignRefs (reassignsRef stagedObj) stagedHeap = []"
    by (simp add: stagedHeap_eval reassignRefs_def)
  have a: "assignRefs (assignsRef stagedObj) stagedHeap = [2]"
    by (simp add: stagedHeap_eval assignRefs_def)
  show ?thesis
    using getters_return_copies
            [OF stagedHeap_allocated, of "\<lambda>rs. []" "\<lambda>rs. rs @ [0]"]
          stagedHeap_allocated
    by (simp add: stagedHeap_staging get_assigns_def r a)
qed

text \<open>
  The copy is shallow. The element of the returned array is the operation object that
  the store holds, so a write to a field of that element (here \<open>repId\<close>) does show in
  the store; the claim is about the returned sequence, not about its elements.
\<close>
lemma returned_elements_are_shared:
  "assignRefs (fst (assignsGetter stagedObj stagedHeap))
     (snd (assignsGetter stagedObj stagedHeap)) = [2]
   \<and> stagingOf stagedObj
        (writeAssignObj 2 (\<lambda>op. op\<lparr>ValidateAssignmentRequest.repId := Num 102\<rparr>)
           (snd (assignsGetter stagedObj stagedHeap)))
       = \<lparr>p_assigns = [assign80010\<lparr>ValidateAssignmentRequest.repId := Num 102\<rparr>],
          p_reassigns = []\<rparr>"
  by (simp add: stagedHeap_eval assignsGetter_def newAssignArray_def writeAssignObj_def
      stagingOf_def readAssigns_def readReassigns_def assignRefs_def reassignRefs_def)

text \<open>
  And a mutation of the array that the private field refers to is a mutation of the
  staging store: this is what a getter returning the field itself would expose.
\<close>
lemma alias_mutation_is_visible:
  "stagingOf stagedObj (mutateAssignArray (assignsRef stagedObj) (\<lambda>rs. []) stagedHeap)
     = \<lparr>p_assigns = [], p_reassigns = []\<rparr>"
  by (simp add: stagedHeap_eval mutateAssignArray_def stagingOf_def readAssigns_def
      readReassigns_def assignRefs_def reassignRefs_def)

end
